theory Spec2Isabelle
  imports Complex_Main "HOL-Library.AList" "HOL-Library.Sublist"
begin

section \<open>The sweep scripts\<close>

text \<open>
  The two launchers, \<^verbatim>\<open>sweep_scripts/tetris.sh\<close> and the learning-rate sweep, are
  written in a small fragment of bash: variable assignments, nested \<^verbatim>\<open>for\<close> loops
  over literal words, and one kind of simple command, a run of
  \<^verbatim>\<open>python -m symphony\<close> with an environment prefix, \<^verbatim>\<open>--flag=value\<close> options, an
  optional redirection, an optional \<^verbatim>\<open>&\<close> and an optional \<^verbatim>\<open>|| break n\<close>.
  The scripts are transcribed as terms of that fragment and run by an interpreter, so that
  both what a script launches and which loop feeds which flag can be read off.
\<close>

subsection \<open>Words and their expansion\<close>

datatype part =
    Lit string                \<comment> \<open>literal text\<close>
  | Var string                \<comment> \<open>\<^verbatim>\<open>"$v"\<close>\<close>
  | Arith_minus string int    \<comment> \<open>\<^verbatim>\<open>"$((v-k))"\<close>\<close>
  | Git_branch                \<comment> \<open>\<^verbatim>\<open>$(git symbolic-ref --short HEAD)\<close>\<close>

type_synonym word = "part list"

text \<open>
  The value of a word in an arithmetic expansion, for a word of decimal digits without a
  leading zero (bash reads a leading zero as octal); the scripts have the words 1 to 5.
\<close>

definition digit_of :: "char \<Rightarrow> int" where
  "digit_of c = int (of_char c) - 48"

definition shell_int :: "string \<Rightarrow> int" where
  "shell_int s = foldl (\<lambda>a c. 10 * a + digit_of c) 0 s"

definition digit_char :: "nat \<Rightarrow> char" where
  "digit_char d = ''0123456789'' ! d"

function dec_nat :: "nat \<Rightarrow> string" where
  "dec_nat n = (if n < 10 then [digit_char n] else dec_nat (n div 10) @ [digit_char (n mod 10)])"
  by pat_completeness auto
termination
  by (relation "measure id") auto

declare dec_nat.simps [simp del]

definition dec :: "int \<Rightarrow> string" where
  "dec i = (if i < 0 then CHR ''-'' # dec_nat (nat (- i)) else dec_nat (nat i))"

text \<open>Neither script sets \<^verbatim>\<open>-u\<close>: an unset variable expands to the empty string.\<close>

definition lookup_var :: "(string \<times> string) list \<Rightarrow> string \<Rightarrow> string" where
  "lookup_var vs v = (case map_of vs v of None \<Rightarrow> [] | Some s \<Rightarrow> s)"

fun expand_part :: "string \<Rightarrow> (string \<times> string) list \<Rightarrow> part \<Rightarrow> string" where
  "expand_part br vs (Lit s) = s"
| "expand_part br vs (Var v) = lookup_var vs v"
| "expand_part br vs (Arith_minus v k) = dec (shell_int (lookup_var vs v) - k)"
| "expand_part br vs Git_branch = br"

definition expand :: "string \<Rightarrow> (string \<times> string) list \<Rightarrow> word \<Rightarrow> string" where
  "expand br vs w = concat (map (expand_part br vs) w)"

subsection \<open>Commands\<close>

datatype cmd =
    Assign string word
  | For string "string list" "cmd list"
  | Symphony
      (env: "(string \<times> word) list")
      (options: "(string \<times> word) list")
      (redirect: "word option")
      (background: bool)
      (or_break: "nat option")

text \<open>One started training run: what the process gets.\<close>

record launch =
  environment :: "(string \<times> string) list"
  flags :: "(string \<times> string) list"
  stdout_file :: "string option"
  in_background :: bool

record sh =
  vars :: "(string \<times> string) list"
  launched :: "launch list"
  breaking :: nat    \<comment> \<open>how many enclosing loops a pending \<^verbatim>\<open>break\<close> still has to leave\<close>

text \<open>
  The outside world of a script: the checked-out branch, the exit status of each
  foreground run, given by the number of runs started before it, and whether a file can be
  opened for writing.
\<close>

record world =
  branch :: string
  exit_status :: "nat \<Rightarrow> int"
  can_open :: "string \<Rightarrow> bool"

definition start :: "world \<Rightarrow> cmd \<Rightarrow> sh \<Rightarrow> launch" where
  "start w c s =
     \<lparr>environment = map (\<lambda>(k, v). (k, expand (branch w) (vars s) v)) (env c),
      flags = map (\<lambda>(k, v). (k, expand (branch w) (vars s) v)) (options c),
      stdout_file = map_option (expand (branch w) (vars s)) (redirect c),
      in_background = background c\<rparr>"

text \<open>
  \<open>exec w d c s\<close> runs \<open>c\<close> inside \<open>d\<close> enclosing loops. A run whose redirection fails,
  because the file cannot be opened (its directory is missing, say), is not started, and
  its status is not zero. A run with \<^verbatim>\<open>&\<close> is not waited for, so its status is never
  looked at. A foreground run followed by \<^verbatim>\<open>|| break n\<close> leaves \<open>n\<close> loops when its status
  is not zero, and all of them when \<open>n\<close> exceeds the nesting depth. A pending break skips
  the rest of every body it crosses.
\<close>

fun exec :: "world \<Rightarrow> nat \<Rightarrow> cmd \<Rightarrow> sh \<Rightarrow> sh"
  and exec_seq :: "world \<Rightarrow> nat \<Rightarrow> cmd list \<Rightarrow> sh \<Rightarrow> sh"
  and exec_for :: "world \<Rightarrow> nat \<Rightarrow> string \<Rightarrow> string list \<Rightarrow> cmd list \<Rightarrow> sh \<Rightarrow> sh"
where
  "exec w d (Assign v x) s = s\<lparr>vars := AList.update v (expand (branch w) (vars s) x) (vars s)\<rparr>"
| "exec w d (For v xs body) s = exec_for w d v xs body s"
| "exec w d (Symphony e os r bg ob) s =
     (let l = start w (Symphony e os r bg ob) s;
          opened = (case stdout_file l of None \<Rightarrow> True | Some f \<Rightarrow> can_open w f);
          s' = (if opened then s\<lparr>launched := launched s @ [l]\<rparr> else s)
      in if bg then s'
         else case ob of
                None \<Rightarrow> s'
              | Some n \<Rightarrow>
                  if opened \<and> exit_status w (length (launched s)) = 0 then s'
                  else s'\<lparr>breaking := min n d\<rparr>)"
| "exec_seq w d [] s = s"
| "exec_seq w d (c # cs) s =
     (let s' = exec w d c s in if breaking s' > 0 then s' else exec_seq w d cs s')"
| "exec_for w d v [] body s = s"
| "exec_for w d v (x # xs) body s =
     (let s' = exec_seq w (Suc d) body (s\<lparr>vars := AList.update v x (vars s)\<rparr>) in
      if breaking s' > 0 then s'\<lparr>breaking := breaking s' - 1\<rparr>
      else exec_for w d v xs body s')"

definition run :: "cmd list \<Rightarrow> world \<Rightarrow> launch list" where
  "run script w = launched (exec_seq w 0 script \<lparr>vars = [], launched = [], breaking = 0\<rparr>)"

subsection \<open>The two scripts\<close>

text \<open>\<^verbatim>\<open>sweep_scripts/tetris.sh\<close>.\<close>

definition tetris_sh :: "cmd list" where
  "tetris_sh =
    [Assign ''branch'' [Git_branch],
     Assign ''expname'' [Lit ''tetris_'', Var ''branch''],
     For ''model'' [''nequip'']
      [For ''l'' [''1'', ''2'', ''3'', ''4'', ''5'']
        [For ''c'' [''64'']
          [For ''i'' [''2'']
            [Symphony
              [(''CUDA_VISIBLE_DEVICES'', [Arith_minus ''l'' 1])]
              [(''--config'', [Lit ''configs/tetris/'', Var ''model'', Lit ''.py'']),
               (''--config.dataset'', [Lit ''tetris'']),
               (''--config.max_n_graphs'', [Lit ''16'']),
               (''--config.max_ell'', [Var ''l'']),
               (''--config.num_channels'', [Var ''c'']),
               (''--config.num_interactions'', [Var ''i'']),
               (''--config.num_train_steps'', [Lit ''100000'']),
               (''--workdir'',
                  [Lit ''workdirs/'', Var ''expname'', Lit ''/'', Var ''model'',
                   Lit ''/interactions='', Var ''i'', Lit ''/l='', Var ''l'',
                   Lit ''/channels='', Var ''c'', Lit ''/''])]
              (Some [Var ''expname'', Lit ''_model='', Var ''model'', Lit ''_l='', Var ''l'',
                     Lit ''_c='', Var ''c'', Lit ''_i='', Var ''i'', Lit ''.txt''])
              True
              None]]]]]"

text \<open>The learning-rate sweep.\<close>

definition learning_rates_run :: "string \<Rightarrow> cmd" where
  "learning_rates_run model =
     Symphony
       [(''CUDA_VISIBLE_DEVICES'', [Lit ''6''])]
       [(''--config'', [Lit ''configs/qm9/'', Lit model, Lit ''.py'']),
        (''--config.learning_rate_schedule'', [Var ''schedule'']),
        (''--config.max_ell'', [Var ''l'']),
        (''--config.num_channels'', [Var ''c'']),
        (''--config.num_interactions'', [Var ''i'']),
        (''--workdir'',
           [Lit ''workdirs/'', Var ''expname'', Lit ''/'', Var ''schedule'', Lit ''/'', Lit model,
            Lit ''/interactions='', Var ''i'', Lit ''/l='', Var ''l'',
            Lit ''/channels='', Var ''c'', Lit ''/''])]
       None
       False
       (Some 10)"

definition learning_rates_sh :: "cmd list" where
  "learning_rates_sh =
    [Assign ''expname'' [Lit ''extras/learning_rates''],
     For ''schedule'' [''constant'', ''sgdr'']
      [For ''l'' [''2'']
        [For ''c'' [''32'']
          [For ''i'' [''4'']
            [learning_rates_run ''mace'',
             learning_rates_run ''e3schnet'']]]]]"

text \<open>The file that the run of degree \<open>l\<close> of the tetris sweep writes to, on branch \<open>br\<close>.\<close>

definition tetris_stdout :: "string \<Rightarrow> string \<Rightarrow> string" where
  "tetris_stdout br l = ''tetris_'' @ br @ ''_model=nequip_l='' @ l @ ''_c=64_i=2.txt''"

definition sweep_scripts :: "cmd list list" where
  "sweep_scripts = [tetris_sh, learning_rates_sh]"

subsection \<open>Which loop feeds which flag\<close>

datatype hyperparameter =
  Learning_rate_schedule | Channel_count | Interaction_count | SH_degree | Inverse_temperature

text \<open>
  The flag of the training package that carries a hyperparameter. The four flags are the
  ones the scripts pass; an inverse temperature would be any flag named after it, in full or
  by the abbreviations \<^verbatim>\<open>fait\<close> and \<^verbatim>\<open>pit\<close> that the analysis notebooks use.
\<close>

fun carries :: "hyperparameter \<Rightarrow> string \<Rightarrow> bool" where
  "carries Learning_rate_schedule f = (f = ''--config.learning_rate_schedule'')"
| "carries Channel_count f = (f = ''--config.num_channels'')"
| "carries Interaction_count f = (f = ''--config.num_interactions'')"
| "carries SH_degree f = (f = ''--config.max_ell'')"
| "carries Inverse_temperature f =
     (sublist ''temperature'' f \<or> sublist ''fait'' f \<or> sublist ''pit'' f)"

fun loop_of :: "(string \<times> string list) list \<Rightarrow> part \<Rightarrow> string list list" where
  "loop_of ls (Var v) = (case map_of ls v of None \<Rightarrow> [] | Some xs \<Rightarrow> [xs])"
| "loop_of ls (Arith_minus v k) = (case map_of ls v of None \<Rightarrow> [] | Some xs \<Rightarrow> [xs])"
| "loop_of ls (Lit s) = []"
| "loop_of ls Git_branch = []"

text \<open>
  \<open>swept ls c\<close>: for every run in \<open>c\<close>, every flag whose value mentions the variable of an
  enclosing loop, with the words that loop ranges over. \<open>ls\<close> holds the enclosing loops,
  innermost first.
\<close>

fun swept :: "(string \<times> string list) list \<Rightarrow> cmd \<Rightarrow> (string \<times> string list) list"
  and swept_seq :: "(string \<times> string list) list \<Rightarrow> cmd list \<Rightarrow> (string \<times> string list) list"
where
  "swept ls (Assign v x) = []"
| "swept ls (For v xs body) = swept_seq ((v, xs) # ls) body"
| "swept ls (Symphony e os r bg ob) =
     concat (map (\<lambda>(f, w). map (Pair f) (concat (map (loop_of ls) w))) os)"
| "swept_seq ls [] = []"
| "swept_seq ls (c # cs) = swept ls c @ swept_seq ls cs"

definition loops_over :: "cmd list \<Rightarrow> hyperparameter \<Rightarrow> string list list" where
  "loops_over script h = remdups (map snd (filter (\<lambda>(f, xs). carries h f) (swept_seq [] script)))"

definition flag :: "string \<Rightarrow> launch \<Rightarrow> string option" where
  "flag f l = map_of (flags l) f"

definition cuda_visible_devices :: "launch \<Rightarrow> string option" where
  "cuda_visible_devices l = map_of (environment l) ''CUDA_VISIBLE_DEVICES''"

section \<open>The notebook \<^verbatim>\<open>resolution_random_points\<close>\<close>

text \<open>
  The notebook calls into jax, e3nn, optax, the symphony package and its own \<^verbatim>\<open>helpers\<close>
  module, none of which is part of the sources. Their functions are parameters of the
  model, collected in a record; a jax function is a function of its arguments, random
  ones of their key. The type variables stand for the values these libraries pass around:
  \<open>'a\<close> jax arrays (keys, points, scalars), \<open>'c\<close> e3nn's \<^verbatim>\<open>IrrepsArray\<close> (signals,
  coefficients, gradients, updates), \<open>'s\<close> e3nn's \<^verbatim>\<open>SphericalSignal\<close>, \<open>'o\<close> optax's optimizer
  state, \<open>'i\<close> e3nn's \<^verbatim>\<open>Irreps\<close>, and \<open>'f\<close> Python floats.
\<close>

record ('c, 'o) gradient_transformation =
  tx_init :: "'c \<Rightarrow> 'o"                          \<comment> \<open>\<^verbatim>\<open>tx.init(params)\<close>\<close>
  tx_update :: "'c \<Rightarrow> 'o \<Rightarrow> 'c \<Rightarrow> 'c \<times> 'o"         \<comment> \<open>\<^verbatim>\<open>tx.update(grads, state, params)\<close>\<close>

record ('a, 'c, 's, 'o, 'i, 'f) libs =
  PRNGKey :: "int \<Rightarrow> 'a"                                 \<comment> \<open>\<^verbatim>\<open>jax.random.PRNGKey\<close>\<close>
  fold_in :: "'a \<Rightarrow> int \<Rightarrow> 'a"                            \<comment> \<open>\<^verbatim>\<open>jax.random.fold_in\<close>\<close>
  random_normal :: "'a \<Rightarrow> int \<times> int \<Rightarrow> 'a"                \<comment> \<open>\<^verbatim>\<open>jax.random.normal\<close>\<close>
  normalized :: "'a \<Rightarrow> 'a"    \<comment> \<open>\<^verbatim>\<open>x / jnp.linalg.norm(x, axis=-1, keepdims=True)\<close>\<close>
  grad :: "('c \<Rightarrow> 'a) \<Rightarrow> 'c \<Rightarrow> 'c"                        \<comment> \<open>the gradient of \<^verbatim>\<open>jax.value_and_grad\<close>\<close>
  linalg_norm :: "'a \<Rightarrow> 'a"                               \<comment> \<open>\<^verbatim>\<open>jnp.linalg.norm\<close>\<close>
  array :: "'c \<Rightarrow> 'a"                                     \<comment> \<open>\<^verbatim>\<open>IrrepsArray.array\<close>\<close>
  s2_irreps :: "int \<Rightarrow> int \<Rightarrow> int \<Rightarrow> 'i"                   \<comment> \<open>\<^verbatim>\<open>e3nn.s2_irreps(lmax, p_val, p_arg)\<close>\<close>
  s2_dirac :: "'a \<Rightarrow> int \<Rightarrow> int \<Rightarrow> int \<Rightarrow> 'c"               \<comment> \<open>\<^verbatim>\<open>e3nn.s2_dirac(x, lmax, p_val, p_arg)\<close>\<close>
  scaled :: "int \<Rightarrow> 'c \<Rightarrow> 'c"                               \<comment> \<open>\<^verbatim>\<open>k * x\<close>\<close>
  e3nn_normal :: "'i \<Rightarrow> 'a \<Rightarrow> int \<times> int \<Rightarrow> 'c"            \<comment> \<open>\<^verbatim>\<open>e3nn.normal(irreps, key, leading_shape)\<close>\<close>
  optax_adam :: "rat \<Rightarrow> ('c, 'o) gradient_transformation"  \<comment> \<open>\<^verbatim>\<open>optax.adam(learning_rate)\<close>\<close>
  apply_updates :: "'c \<Rightarrow> 'c \<Rightarrow> 'c"                        \<comment> \<open>\<^verbatim>\<open>optax.apply_updates(params, updates)\<close>\<close>
  log_coeffs_to_logits :: "'c \<Rightarrow> int \<Rightarrow> int \<Rightarrow> int \<Rightarrow> 's"
    \<comment> \<open>\<^verbatim>\<open>models.log_coeffs_to_logits(coeffs, res_beta, res_alpha, num_radii)\<close>\<close>
  kl_divergence_on_spheres :: "'s \<Rightarrow> 's \<Rightarrow> 'a"
    \<comment> \<open>\<^verbatim>\<open>loss.kl_divergence_on_spheres(true_dist, log_predicted_dist)\<close>\<close>
  average_target_distributions :: "'c \<Rightarrow> int \<Rightarrow> int \<Rightarrow> 's"
    \<comment> \<open>\<^verbatim>\<open>helpers.average_target_distributions(signal, res_alpha, res_beta)\<close>\<close>
  coeffs_to_distribution :: "'c \<Rightarrow> int \<Rightarrow> int \<Rightarrow> 's"
    \<comment> \<open>\<^verbatim>\<open>helpers.coeffs_to_distribution(coeffs, res_alpha, res_beta)\<close>\<close>
  rmse_of_samples :: "'s \<Rightarrow> 'a \<Rightarrow> 'a \<Rightarrow> int \<Rightarrow> 'a \<times> 'a"
    \<comment> \<open>\<^verbatim>\<open>helpers.rmse_of_samples(dist, points, key, num_samples)\<close>\<close>
  float :: "'a \<Rightarrow> 'f"                                     \<comment> \<open>Python's \<^verbatim>\<open>float(x)\<close>\<close>

subsection \<open>The notebook's global variables\<close>

record ('a, 'c) globals =
  g_rng :: 'a               \<comment> \<open>\<^verbatim>\<open>rng\<close>\<close>
  g_random_points :: 'a     \<comment> \<open>\<^verbatim>\<open>random_points\<close>\<close>
  g_random_signal :: 'c     \<comment> \<open>\<^verbatim>\<open>random_signal\<close>\<close>

text \<open>The cell that creates the random signal (\<^verbatim>\<open>N_points = 5\<close>, \<^verbatim>\<open>lmax = 5\<close>).\<close>

definition random_signal_cell ::
  "('a, 'c, 's, 'o, 'i, 'f) libs \<Rightarrow> ('a, 'c) globals" where
  "random_signal_cell L =
     (let N_points = 5;
          lmax = 5;
          rng = PRNGKey L 0;
          random_points = random_normal L rng (N_points, 3);
          random_points = normalized L random_points;
          random_signal = scaled L 20 (s2_dirac L random_points lmax 1 (- 1))
      in \<lparr>g_rng = rng, g_random_points = random_points, g_random_signal = random_signal\<rparr>)"

subsection \<open>\<^verbatim>\<open>optimize_coeffs\<close>\<close>

text \<open>One value of \<^verbatim>\<open>training_dict\<close>.\<close>

record ('a, 'f) entry =
  e_coeffs :: 'a         \<comment> \<open>\<^verbatim>\<open>"coeffs"\<close>\<close>
  e_loss_value :: 'f     \<comment> \<open>\<^verbatim>\<open>"loss_value"\<close>\<close>
  e_grad_norms :: 'f     \<comment> \<open>\<^verbatim>\<open>"grad_norms"\<close>\<close>
  e_mean_dist :: 'f      \<comment> \<open>\<^verbatim>\<open>"mean_dist"\<close>\<close>
  e_std_dist :: 'f       \<comment> \<open>\<^verbatim>\<open>"std_dist"\<close>\<close>

text \<open>Python's \<^verbatim>\<open>range(n)\<close>: empty when \<open>n \<le> 0\<close>.\<close>

definition py_range :: "int \<Rightarrow> int list" where
  "py_range n = [0..n - 1]"

definition loss_fn ::
  "('a, 'c, 's, 'o, 'i, 'f) libs \<Rightarrow> 's \<Rightarrow> int \<Rightarrow> int \<Rightarrow> 'c \<Rightarrow> 'a" where
  "loss_fn L true_dist res_alpha res_beta coeffs =
     (let log_predicted_dist = log_coeffs_to_logits L coeffs res_beta res_alpha 1
      in kl_divergence_on_spheres L true_dist log_predicted_dist)"

text \<open>\<^verbatim>\<open>jax.value_and_grad(f)(x)\<close> is the pair of \<open>f x\<close> and the gradient of \<open>f\<close> at \<open>x\<close>.\<close>

definition value_and_grad ::
  "('a, 'c, 's, 'o, 'i, 'f) libs \<Rightarrow> ('c \<Rightarrow> 'a) \<Rightarrow> 'c \<Rightarrow> 'a \<times> 'c" where
  "value_and_grad L f x = (f x, grad L f x)"

text \<open>\<^verbatim>\<open>jax.jit\<close> compiles the step and leaves what it computes as it is.\<close>

definition train_step ::
  "('a, 'c, 's, 'o, 'i, 'f) libs \<Rightarrow> ('c, 'o) gradient_transformation \<Rightarrow> ('c \<Rightarrow> 'a) \<Rightarrow>
     'c \<Rightarrow> 'o \<Rightarrow> 'c \<times> 'o \<times> 'a \<times> 'a" where
  "train_step L tx lf coeffs opt_state =
     (let (loss_value, grads) = value_and_grad L lf coeffs;
          grad_norms = linalg_norm L (array L grads);
          (updates, opt_state) = tx_update tx grads opt_state coeffs;
          coeffs = apply_updates L coeffs updates
      in (coeffs, opt_state, loss_value, grad_norms))"

text \<open>
  The body of the training loop, on the variables that live across iterations: the
  coefficients, the optimizer state and the dictionary (which keeps insertion order; an
  assignment to a key it has replaces the value in place, as \<open>AList.update\<close> does).
  The progress line printed every 5000 steps is left out.
\<close>

definition loop_body ::
  "('a, 'c, 's, 'o, 'i, 'f) libs \<Rightarrow> ('a, 'c) globals \<Rightarrow> ('c, 'o) gradient_transformation \<Rightarrow>
     ('c \<Rightarrow> 'a) \<Rightarrow> 'a \<Rightarrow> int \<Rightarrow> int \<Rightarrow>
     'c \<times> 'o \<times> (int \<times> ('a, 'f) entry) list \<Rightarrow> int \<Rightarrow>
     'c \<times> 'o \<times> (int \<times> ('a, 'f) entry) list" where
  "loop_body L G tx lf rng res_alpha res_beta st step =
     (let (coeffs, opt_state, training_dict) = st;
          (coeffs, opt_state, loss_value, grad_norms) = train_step L tx lf coeffs opt_state
      in if step mod 10 = 0 then
           let step_rng = fold_in L rng step;
               dist = coeffs_to_distribution L coeffs res_alpha res_beta;
               (mean_dist, std_dist) = rmse_of_samples L dist (g_random_points G) step_rng 1000
           in (coeffs, opt_state,
               AList.update step
                 \<lparr>e_coeffs = array L coeffs,
                  e_loss_value = float L loss_value,
                  e_grad_norms = float L grad_norms,
                  e_mean_dist = float L mean_dist,
                  e_std_dist = float L std_dist\<rparr>
                 training_dict)
         else (coeffs, opt_state, training_dict))"

definition optimize_coeffs ::
  "('a, 'c, 's, 'o, 'i, 'f) libs \<Rightarrow> ('a, 'c) globals \<Rightarrow>
     'c \<Rightarrow> int \<Rightarrow> int \<Rightarrow> int \<Rightarrow> int \<Rightarrow> int \<Rightarrow> (int \<times> ('a, 'f) entry) list" where
  "optimize_coeffs L G true_signal lmax position_channels res_alpha res_beta num_training_steps =
     (let true_dist = average_target_distributions L true_signal res_alpha res_beta;
          rng = PRNGKey L 0;
          irreps = s2_irreps L lmax 1 (- 1);
          coeffs = e3nn_normal L irreps rng (position_channels, 1);
          tx = optax_adam L (1 / 1000);
          opt_state = tx_init tx coeffs;
          lf = loss_fn L true_dist res_alpha res_beta;
          (coeffs, opt_state, training_dict) =
            foldl (loop_body L G tx lf rng res_alpha res_beta) (coeffs, opt_state, [])
              (py_range num_training_steps)
      in training_dict)"

subsection \<open>The training the specification describes\<close>

text \<open>
  These definitions follow the specification's words, not the notebook's code, and are what
  \<^verbatim>\<open>optimize_coeffs\<close> is compared with: the loss is the KL divergence between the target
  distribution (computed from the true signal at the given resolution) and the
  distribution that \<^verbatim>\<open>log_coeffs_to_logits\<close> induces from the coefficients; a step is one
  Adam update (learning rate \<open>1e-3\<close>) for the gradient of that loss; training starts from
  normally distributed coefficients drawn with the key \<^verbatim>\<open>PRNGKey(0)\<close>.
\<close>

definition kl_loss :: "('a, 'c, 's, 'o, 'i, 'f) libs \<Rightarrow> 'c \<Rightarrow> int \<Rightarrow> int \<Rightarrow> 'c \<Rightarrow> 'a" where
  "kl_loss L true_signal res_alpha res_beta c =
     kl_divergence_on_spheres L
       (average_target_distributions L true_signal res_alpha res_beta)
       (log_coeffs_to_logits L c res_beta res_alpha 1)"

definition adam_step :: "('a, 'c, 's, 'o, 'i, 'f) libs \<Rightarrow> ('c \<Rightarrow> 'a) \<Rightarrow> 'c \<times> 'o \<Rightarrow> 'c \<times> 'o" where
  "adam_step L f p =
     (let (updates, opt_state) = tx_update (optax_adam L (1 / 1000)) (grad L f (fst p)) (snd p) (fst p)
      in (apply_updates L (fst p) updates, opt_state))"

definition initial_params :: "('a, 'c, 's, 'o, 'i, 'f) libs \<Rightarrow> int \<Rightarrow> int \<Rightarrow> 'c \<times> 'o" where
  "initial_params L lmax position_channels =
     (let c = e3nn_normal L (s2_irreps L lmax 1 (- 1)) (PRNGKey L 0) (position_channels, 1)
      in (c, tx_init (optax_adam L (1 / 1000)) c))"

text \<open>The coefficients and the optimizer state after \<open>k\<close> steps.\<close>

definition params_after ::
  "('a, 'c, 's, 'o, 'i, 'f) libs \<Rightarrow> 'c \<Rightarrow> int \<Rightarrow> int \<Rightarrow> int \<Rightarrow> int \<Rightarrow> nat \<Rightarrow> 'c \<times> 'o" where
  "params_after L true_signal lmax position_channels res_alpha res_beta k =
     (adam_step L (kl_loss L true_signal res_alpha res_beta) ^^ k)
       (initial_params L lmax position_channels)"

text \<open>
  The periodic evaluation at a step: the mean and the standard deviation of the distance
  from 1000 samples of the distribution of the coefficients to the nearest of the given
  points, the samples drawn with the step folded into \<^verbatim>\<open>PRNGKey(0)\<close>.
\<close>

definition evaluation ::
  "('a, 'c, 's, 'o, 'i, 'f) libs \<Rightarrow> 'a \<Rightarrow> int \<Rightarrow> int \<Rightarrow> 'c \<Rightarrow> int \<Rightarrow> 'a \<times> 'a" where
  "evaluation L points res_alpha res_beta c step =
     rmse_of_samples L (coeffs_to_distribution L c res_alpha res_beta) points
       (fold_in L (PRNGKey L 0) step) 1000"

text \<open>
  What is recorded at a step: the loss and the norm of its gradient at the coefficients
  the step starts from, and the coefficients the step ends with, with their evaluation.
\<close>

definition recorded ::
  "('a, 'c, 's, 'o, 'i, 'f) libs \<Rightarrow> 'a \<Rightarrow> 'c \<Rightarrow> int \<Rightarrow> int \<Rightarrow> int \<Rightarrow> int \<Rightarrow> int \<Rightarrow> ('a, 'f) entry" where
  "recorded L points true_signal lmax position_channels res_alpha res_beta step =
     (let f = kl_loss L true_signal res_alpha res_beta;
          before = fst (params_after L true_signal lmax position_channels res_alpha res_beta (nat step));
          after = fst (params_after L true_signal lmax position_channels res_alpha res_beta (Suc (nat step)));
          ev = evaluation L points res_alpha res_beta after step
      in \<lparr>e_coeffs = array L after,
          e_loss_value = float L (f before),
          e_grad_norms = float L (linalg_norm L (array L (grad L f before))),
          e_mean_dist = float L (fst ev),
          e_std_dist = float L (snd ev)\<rparr>)"

subsection \<open>The grid-sweep cell\<close>

text \<open>
  The call of the cell, for one resolution: the signal is the global \<^verbatim>\<open>random_signal\<close>,
  \<^verbatim>\<open>lmax\<close> is 5, there are 2 position channels and 10000 training steps.
\<close>

definition sweep_call ::
  "('a, 'c, 's, 'o, 'i, 'f) libs \<Rightarrow> ('a, 'c) globals \<Rightarrow> int \<Rightarrow> int \<Rightarrow>
     (int \<times> ('a, 'f) entry) list" where
  "sweep_call L G res_alpha res_beta =
     optimize_coeffs L G (g_random_signal G) 5 2 res_alpha res_beta 10000"


datatype py_error = IndexError | AssertionError | KeyError | ValueError

text \<open>\<^verbatim>\<open>list(d.keys())[0]\<close> and \<^verbatim>\<open>list(d.keys())[-1]\<close> raise on an empty dictionary.\<close>

definition first_key :: "(int \<times> 'v) list \<Rightarrow> py_error + int" where
  "first_key d = (case map fst d of [] \<Rightarrow> Inl IndexError | k # ks \<Rightarrow> Inr k)"

definition last_key :: "(int \<times> 'v) list \<Rightarrow> py_error + int" where
  "last_key d = (case map fst d of [] \<Rightarrow> Inl IndexError | k # ks \<Rightarrow> Inr (last (k # ks)))"

text \<open>
  \<^verbatim>\<open>first_step = ...; last_step = ...; assert first_step == 0\<close>: the pair of steps, or the
  exception raised.
\<close>

definition first_and_last_step :: "(int \<times> 'v) list \<Rightarrow> py_error + int \<times> int" where
  "first_and_last_step training_dict =
     (case first_key training_dict of
        Inl e \<Rightarrow> Inl e
      | Inr first_step \<Rightarrow>
          (case last_key training_dict of
             Inl e \<Rightarrow> Inl e
           | Inr last_step \<Rightarrow>
               if first_step = 0 then Inr (first_step, last_step) else Inl AssertionError))"

subsection \<open>An instance for examples\<close>

text \<open>
  A small instance of the libraries, over the integers, on which the model runs: the
  optimizer moves the coefficients by one against the sign of the gradient.
\<close>

definition example_libs :: "(int, int, int, int, int, int) libs" where
  "example_libs =
    \<lparr>PRNGKey = (\<lambda>s. s),
     fold_in = (\<lambda>k n. k + n + 1),
     random_normal = (\<lambda>k (a, b). k + a * b),
     normalized = (\<lambda>x. x),
     grad = (\<lambda>f x. f (x + 1) - f x),
     linalg_norm = abs,
     array = (\<lambda>c. c),
     s2_irreps = (\<lambda>l p q. l),
     s2_dirac = (\<lambda>x l p q. x + l),
     scaled = (\<lambda>k x. k * x),
     e3nn_normal = (\<lambda>i k (a, b). i + k + a + b),
     optax_adam = (\<lambda>lr. \<lparr>tx_init = (\<lambda>c. 0),
                          tx_update = (\<lambda>g s p. (if g < 0 then 1 else - 1, s + 1))\<rparr>),
     apply_updates = (\<lambda>p u. p + u),
     log_coeffs_to_logits = (\<lambda>c rb ra nr. c + rb - ra + nr),
     kl_divergence_on_spheres = (\<lambda>t p. (t - p) * (t - p)),
     average_target_distributions = (\<lambda>s ra rb. s + ra + rb),
     coeffs_to_distribution = (\<lambda>c ra rb. c * ra + rb),
     rmse_of_samples = (\<lambda>d pts k n. (d + pts + k, n)),
     float = (\<lambda>x. x)\<rparr>"

section \<open>The metrics notebooks\<close>

text \<open>
  The temperature-ablation notebook and the OpenBabel notebook import everything from
  \<^verbatim>\<open>analyses.metrics\<close>, which is not part of the sources; they use the file system, pandas
  and Python's floats. The metric functions, the test for a path, and the three operations
  on floats the notebooks use are parameters of the model. \<open>'m\<close> stands for molecules
  (a collection of molecules is a list: the notebook takes its \<^verbatim>\<open>len\<close>), \<open>'f\<close> for floats.
\<close>

record ('m, 'f) metrics =
  path_exists :: "string \<Rightarrow> bool"                              \<comment> \<open>\<^verbatim>\<open>os.path.exists\<close>\<close>
  get_all_molecules :: "string \<Rightarrow> 'm list"
  get_all_valid_molecules :: "'m list \<Rightarrow> 'm list"
  compute_validity :: "'m list \<Rightarrow> 'm list \<Rightarrow> 'f"
  compute_uniqueness :: "'m list \<Rightarrow> 'f"
  get_all_molecules_with_openbabel :: "string \<Rightarrow> 'm list"
  get_all_valid_molecules_with_openbabel :: "'m list \<Rightarrow> 'm list"
  compute_uniqueness_with_openbabel :: "'m list \<Rightarrow> 'f"
  float_times :: "'f \<Rightarrow> int \<Rightarrow> 'f"                                    \<comment> \<open>\<^verbatim>\<open>x * k\<close> on a float\<close>
  round_to :: "'f \<Rightarrow> int \<Rightarrow> 'f"                                  \<comment> \<open>rounding to \<open>k\<close> decimals\<close>
  format_2f :: "'f \<Rightarrow> string"                                   \<comment> \<open>\<^verbatim>\<open>f"{x:.2f}"\<close>\<close>

subsection \<open>Data frames\<close>

text \<open>
  A frame is its row labels, its column labels and its rows of cells. A cell holds a
  string, a float or nothing; a label is a string or, in a default index, a position.
  Positions never occur as values.
\<close>

datatype 'f cell = Str string | Num 'f | NaN | Pos nat

record 'f frame =
  df_index :: "'f cell list"
  df_columns :: "'f cell list"
  df_data :: "'f cell list list"

text \<open>\<^verbatim>\<open>pd.DataFrame(columns=cols)\<close>.\<close>

definition empty_frame :: "string list \<Rightarrow> 'f frame" where
  "empty_frame cols = \<lparr>df_index = [], df_columns = map Str cols, df_data = []\<rparr>"

text \<open>
  \<^verbatim>\<open>pd.concat([df, pd.DataFrame.from_records(r)], ignore_index=True)\<close> for one record \<open>r\<close>:
  the record becomes the last row; a key that is no column yet becomes a new column, empty
  in the rows before; the rows are numbered anew.
\<close>

definition concat_record :: "'f frame \<Rightarrow> (string \<times> 'f cell) list \<Rightarrow> 'f frame" where
  "concat_record df r =
     (let new = filter (\<lambda>k. Str k \<notin> set (df_columns df)) (map fst r);
          cols = df_columns df @ map Str new
      in \<lparr>df_index = map Pos [0..<Suc (length (df_data df))],
          df_columns = cols,
          df_data =
            map (\<lambda>row. row @ replicate (length new) NaN) (df_data df) @
            [map (\<lambda>c. case c of
                         Str k \<Rightarrow> (case map_of r k of None \<Rightarrow> NaN | Some v \<Rightarrow> v)
                       | _ \<Rightarrow> NaN) cols]\<rparr>)"

text \<open>\<^verbatim>\<open>df[name]\<close>: a column, or \<^verbatim>\<open>KeyError\<close>.\<close>

fun position :: "'a \<Rightarrow> 'a list \<Rightarrow> nat option" where
  "position x [] = None"
| "position x (y # ys) = (if x = y then Some 0 else map_option Suc (position x ys))"

definition column :: "'f frame \<Rightarrow> string \<Rightarrow> py_error + 'f cell list" where
  "column df name =
     (case position (Str name) (df_columns df) of
        None \<Rightarrow> Inl KeyError
      | Some j \<Rightarrow> Inr (map (\<lambda>row. row ! j) (df_data df)))"

text \<open>\<^verbatim>\<open>df[mask]\<close> for a list of booleans as long as the frame: the rows where it holds.\<close>

definition select_rows :: "'f frame \<Rightarrow> bool list \<Rightarrow> 'f frame" where
  "select_rows df keep =
     df\<lparr>df_index := map fst (filter snd (zip (df_index df) keep)),
        df_data := map fst (filter snd (zip (df_data df) keep))\<rparr>"

text \<open>\<^verbatim>\<open>df.transpose()\<close>.\<close>

definition transpose_frame :: "'f frame \<Rightarrow> 'f frame" where
  "transpose_frame df =
     \<lparr>df_index = df_columns df,
      df_columns = df_index df,
      df_data = map (\<lambda>j. map (\<lambda>row. row ! j) (df_data df)) [0..<length (df_columns df)]\<rparr>"

text \<open>\<^verbatim>\<open>df.columns = df.iloc[0]\<close>; \<^verbatim>\<open>iloc[0]\<close> raises on a frame without rows.\<close>

definition columns_from_first_row :: "'f frame \<Rightarrow> py_error + 'f frame" where
  "columns_from_first_row df =
     (case df_data df of
        [] \<Rightarrow> Inl IndexError
      | row # rows \<Rightarrow> Inr (df\<lparr>df_columns := row\<rparr>))"

text \<open>
  \<^verbatim>\<open>x * k\<close> on a cell of an object column: Python's own product, which repeats a string
  \<open>k\<close> times.
\<close>

fun cell_times :: "('m, 'f) metrics \<Rightarrow> 'f cell \<Rightarrow> int \<Rightarrow> 'f cell" where
  "cell_times M (Num x) k = Num (float_times M x k)"
| "cell_times M (Str s) k = Str (concat (replicate (nat k) s))"
| "cell_times M NaN k = NaN"
| "cell_times M (Pos n) k = Pos (n * nat k)"

definition frame_times :: "('m, 'f) metrics \<Rightarrow> 'f frame \<Rightarrow> int \<Rightarrow> 'f frame" where
  "frame_times M df k = df\<lparr>df_data := map (map (\<lambda>c. cell_times M c k)) (df_data df)\<rparr>"

text \<open>\<^verbatim>\<open>df.drop(label)\<close>: without the rows of that label, or \<^verbatim>\<open>KeyError\<close> when there is none.\<close>

definition drop_row :: "'f frame \<Rightarrow> string \<Rightarrow> py_error + 'f frame" where
  "drop_row df label =
     (if Str label \<in> set (df_index df)
      then Inr (select_rows df (map (\<lambda>l. l \<noteq> Str label) (df_index df)))
      else Inl KeyError)"

text \<open>
  \<^verbatim>\<open>df.astype(float)\<close>: floats stay, a missing value stays missing, and a string that is not
  the text of a number raises \<^verbatim>\<open>ValueError\<close>; the model raises on every string.
\<close>

fun all_cells :: "('a \<Rightarrow> py_error + 'b) \<Rightarrow> 'a list \<Rightarrow> py_error + 'b list" where
  "all_cells f [] = Inr []"
| "all_cells f (x # xs) =
     (case f x of
        Inl e \<Rightarrow> Inl e
      | Inr y \<Rightarrow> (case all_cells f xs of Inl e \<Rightarrow> Inl e | Inr ys \<Rightarrow> Inr (y # ys)))"

fun as_float :: "'f cell \<Rightarrow> py_error + 'f cell" where
  "as_float (Num x) = Inr (Num x)"
| "as_float NaN = Inr NaN"
| "as_float (Str s) = Inl ValueError"
| "as_float (Pos n) = Inl ValueError"

definition astype_float :: "'f frame \<Rightarrow> py_error + 'f frame" where
  "astype_float df =
     (case all_cells (all_cells as_float) (df_data df) of
        Inl e \<Rightarrow> Inl e
      | Inr d \<Rightarrow> Inr (df\<lparr>df_data := d\<rparr>))"

text \<open>\<^verbatim>\<open>df.round(k)\<close> rounds the floats.\<close>

fun round_cell :: "('m, 'f) metrics \<Rightarrow> int \<Rightarrow> 'f cell \<Rightarrow> 'f cell" where
  "round_cell M k (Num x) = Num (round_to M x k)"
| "round_cell M k c = c"

definition round_frame :: "('m, 'f) metrics \<Rightarrow> 'f frame \<Rightarrow> int \<Rightarrow> 'f frame" where
  "round_frame M df k = df\<lparr>df_data := map (map (round_cell M k)) (df_data df)\<rparr>"

text \<open>
  \<^verbatim>\<open>df.applymap(lambda x: f"{x:.2f}")\<close>: the format is one of floats, and raises on a string.
  A missing value is the float \<^verbatim>\<open>nan\<close> and prints as such.
\<close>

fun format_cell :: "('m, 'f) metrics \<Rightarrow> 'f cell \<Rightarrow> py_error + 'f cell" where
  "format_cell M (Num x) = Inr (Str (format_2f M x))"
| "format_cell M NaN = Inr (Str ''nan'')"
| "format_cell M (Str s) = Inl ValueError"
| "format_cell M (Pos n) = Inl ValueError"

definition applymap_2f :: "('m, 'f) metrics \<Rightarrow> 'f frame \<Rightarrow> py_error + 'f frame" where
  "applymap_2f M df =
     (case all_cells (all_cells (format_cell M)) (df_data df) of
        Inl e \<Rightarrow> Inl e
      | Inr d \<Rightarrow> Inr (df\<lparr>df_data := d\<rparr>))"

text \<open>Sequencing of steps that can raise.\<close>

definition and_then :: "py_error + 'a \<Rightarrow> ('a \<Rightarrow> py_error + 'b) \<Rightarrow> py_error + 'b" where
  "and_then r f = (case r of Inl e \<Rightarrow> Inl e | Inr x \<Rightarrow> f x)"

text \<open>\<^verbatim>\<open>d[k]\<close> on a dictionary.\<close>

definition getitem :: "('k \<times> 'v) list \<Rightarrow> 'k \<Rightarrow> py_error + 'v" where
  "getitem d k = (case map_of d k of None \<Rightarrow> Inl KeyError | Some v \<Rightarrow> Inr v)"

subsection \<open>The temperature-ablation notebook\<close>

definition template :: "string \<Rightarrow> string \<Rightarrow> string" where
  "template pit fait =
     ''/Users/ameyad/Documents/spherical-harmonic-net/analyses/analysed_workdirs/'' @
     ''qm9_bessel_embedding_attempt6_edm_splits_iclr2024_submission/e3schnet_and_nequip/'' @
     ''interactions=3/l=5/position_channels=2/channels=64/fait='' @ fait @ ''/pit='' @ pit @
     ''/step=9930000_res_alpha=359_res_beta=180/molecules''"

definition temperatures :: "string list" where
  "temperatures = [''0.01'', ''0.1'', ''1.0'', ''10.0'', ''100.0'']"

text \<open>
  The cell that fills \<^verbatim>\<open>generated_paths\<close>: two nested loops, the body skipping a setting
  whose path does not exist.
\<close>

definition add_path ::
  "('m, 'f) metrics \<Rightarrow> ((string \<times> string) \<times> string) list \<Rightarrow> string \<times> string \<Rightarrow>
     ((string \<times> string) \<times> string) list" where
  "add_path M generated_paths setting =
     (let (pit, fait) = setting;
          path = template pit fait
      in if \<not> path_exists M path then generated_paths
         else AList.update (pit, fait) path generated_paths)"

definition generated_paths :: "('m, 'f) metrics \<Rightarrow> ((string \<times> string) \<times> string) list" where
  "generated_paths M =
     foldl (\<lambda>gp pit. foldl (\<lambda>gp fait. add_path M gp (pit, fait)) gp temperatures) [] temperatures"

text \<open>
  A comprehension over the items of a dictionary keeps the keys and their order.
\<close>

definition all_generated_molecules ::
  "('m, 'f) metrics \<Rightarrow> ((string \<times> string) \<times> 'm list) list" where
  "all_generated_molecules M =
     map (\<lambda>(model, path). (model, get_all_molecules M path)) (generated_paths M)"

definition valid_molecules ::
  "('m, 'f) metrics \<Rightarrow> ((string \<times> string) \<times> 'm list) list" where
  "valid_molecules M =
     map (\<lambda>(model, molecules). (model, get_all_valid_molecules M molecules))
       (all_generated_molecules M)"

text \<open>The loop that builds \<^verbatim>\<open>all_results_df\<close>, on the items of \<^verbatim>\<open>valid_molecules\<close>.\<close>

fun results_loop ::
  "('m, 'f) metrics \<Rightarrow> ((string \<times> string) \<times> 'm list) list \<Rightarrow> 'f frame \<Rightarrow>
     ((string \<times> string) \<times> 'm list) list \<Rightarrow> py_error + 'f frame" where
  "results_loop M generated all_results_df [] = Inr all_results_df"
| "results_loop M generated all_results_df ((model, molecules) # items) =
     (if length molecules = 0 then results_loop M generated all_results_df items
      else
        and_then (getitem generated model) (\<lambda>all_molecules.
          let validity_fraction = compute_validity M all_molecules molecules;
              uniqueness_fraction = compute_uniqueness M molecules;
              (pit, fait) = model
          in results_loop M generated
               (concat_record all_results_df
                  [(''pit'', Str pit), (''fait'', Str fait),
                   (''validity'', Num validity_fraction),
                   (''uniqueness'', Num uniqueness_fraction)])
               items))"

definition all_results_df :: "('m, 'f) metrics \<Rightarrow> py_error + 'f frame" where
  "all_results_df M =
     results_loop M (all_generated_molecules M) (empty_frame [''pit'', ''fait'', ''validity''])
       (valid_molecules M)"

text \<open>
  The two plot cells: the rows where the other temperature is \<^verbatim>\<open>"1.0"\<close>, validity and
  uniqueness times 100, uniqueness on the x axis and validity on the y axis. The columns
  the cells add for the colour and the labels of the points are left out. (The last cell
  of the notebook reads \<^verbatim>\<open>validity_df\<close>, which no cell assigns; it is not modelled.)
\<close>

definition scatter_points ::
  "('m, 'f) metrics \<Rightarrow> string \<Rightarrow> 'f frame \<Rightarrow> py_error + ('f cell \<times> 'f cell) list" where
  "scatter_points M other all_results =
     and_then (column all_results other) (\<lambda>others.
       let results_df = select_rows all_results (map (\<lambda>c. c = Str ''1.0'') others) in
       and_then (column results_df ''validity'') (\<lambda>validity.
         let validity = map (\<lambda>c. cell_times M c 100) validity in
         and_then (column results_df ''uniqueness'') (\<lambda>uniqueness.
           let uniqueness = map (\<lambda>c. cell_times M c 100) uniqueness in
           Inr (zip uniqueness validity))))"

definition position_temperature_plot ::
  "('m, 'f) metrics \<Rightarrow> py_error + ('f cell \<times> 'f cell) list" where
  "position_temperature_plot M = and_then (all_results_df M) (scatter_points M ''fait'')"

definition focus_temperature_plot ::
  "('m, 'f) metrics \<Rightarrow> py_error + ('f cell \<times> 'f cell) list" where
  "focus_temperature_plot M = and_then (all_results_df M) (scatter_points M ''pit'')"

subsection \<open>The OpenBabel notebook\<close>

definition openbabel_generated_paths :: "(string \<times> string) list" where
  "openbabel_generated_paths =
     [(''QM9'', ''/Users/ameyad/Documents/spherical-harmonic-net/others/qm9_xyz''),
      (''Symphony'',
         ''/Users/ameyad/Documents/spherical-harmonic-net/analyses/analysed_workdirs/'' @
         ''qm9_bessel_embedding_attempt6_edm_splits/e3schnet_and_nequip/interactions=3/l=5/'' @
         ''position_channels=2/channels=64/fait=1.0/pit=1.0/step=7530000/molecules''),
      (''EDM'', ''/Users/ameyad/Documents/spherical-harmonic-net/others/edm-resampled/samples_edm_xyz''),
      (''GSchNet'', ''/Users/ameyad/Documents/spherical-harmonic-net/others/gschnet-edm-retrained/molecules''),
      (''GSphereNet'', ''/Users/ameyad/Documents/spherical-harmonic-net/others/gspherenet/molecules'')]"

definition all_generated_molecules_openbabel :: "('m, 'f) metrics \<Rightarrow> (string \<times> 'm list) list" where
  "all_generated_molecules_openbabel M =
     map (\<lambda>(model, path). (model, get_all_molecules_with_openbabel M path))
       openbabel_generated_paths"

definition valid_molecules_openbabel :: "('m, 'f) metrics \<Rightarrow> (string \<times> 'm list) list" where
  "valid_molecules_openbabel M =
     map (\<lambda>(model, molecules). (model, get_all_valid_molecules_with_openbabel M molecules))
       (all_generated_molecules_openbabel M)"

fun validity_loop ::
  "('m, 'f) metrics \<Rightarrow> (string \<times> 'm list) list \<Rightarrow> 'f frame \<Rightarrow> (string \<times> 'm list) list \<Rightarrow>
     py_error + 'f frame" where
  "validity_loop M generated validity_openbabel_df [] = Inr validity_openbabel_df"
| "validity_loop M generated validity_openbabel_df ((model, molecules) # items) =
     and_then (getitem generated model) (\<lambda>all_molecules.
       let validity_fraction = compute_validity M all_molecules molecules
       in validity_loop M generated
            (concat_record validity_openbabel_df
               [(''model'', Str model), (''validity'', Num validity_fraction)])
            items)"

definition validity_openbabel_df :: "('m, 'f) metrics \<Rightarrow> py_error + 'f frame" where
  "validity_openbabel_df M =
     validity_loop M (all_generated_molecules_openbabel M) (empty_frame [''model'', ''validity''])
       (valid_molecules_openbabel M)"

text \<open>The table of validities that the cell prints (through \<^verbatim>\<open>style.to_latex\<close>).\<close>

definition formatted_validity_df :: "('m, 'f) metrics \<Rightarrow> py_error + 'f frame" where
  "formatted_validity_df M =
     and_then (validity_openbabel_df M) (\<lambda>df.
       let df = transpose_frame df in
       and_then (columns_from_first_row df) (\<lambda>df.
         let df = frame_times M df 100 in
         and_then (drop_row df ''model'') (\<lambda>df.
           let df = df\<lparr>df_index := [Str ''Validity via OpenBabel'']\<rparr> in
           and_then (astype_float df) (\<lambda>df.
             applymap_2f M df))))"

fun uniqueness_loop ::
  "('m, 'f) metrics \<Rightarrow> 'f frame \<Rightarrow> (string \<times> 'm list) list \<Rightarrow> 'f frame" where
  "uniqueness_loop M uniqueness_openbabel_df [] = uniqueness_openbabel_df"
| "uniqueness_loop M uniqueness_openbabel_df ((model, molecules) # items) =
     (let uniqueness_fraction = compute_uniqueness_with_openbabel M molecules
      in uniqueness_loop M
           (concat_record uniqueness_openbabel_df
              [(''model'', Str model), (''uniqueness'', Num uniqueness_fraction)])
           items)"

definition uniqueness_openbabel_df :: "('m, 'f) metrics \<Rightarrow> 'f frame" where
  "uniqueness_openbabel_df M =
     uniqueness_loop M (empty_frame [''model'', ''uniqueness'']) (valid_molecules_openbabel M)"

text \<open>The table of uniquenesses that the cell prints.\<close>

definition formatted_uniqueness_df :: "('m, 'f) metrics \<Rightarrow> py_error + 'f frame" where
  "formatted_uniqueness_df M =
     (let df = transpose_frame (uniqueness_openbabel_df M) in
      and_then (columns_from_first_row df) (\<lambda>df.
        let df = frame_times M df 100 in
        and_then (drop_row df ''model'') (\<lambda>df.
          and_then (astype_float df) (\<lambda>df.
            let df = df\<lparr>df_index := [Str ''Uniqueness via OpenBabel'']\<rparr>;
                df = round_frame M df 2
            in applymap_2f M df))))"

subsection \<open>The settings and their rows\<close>

text \<open>
  Names for what the statements about the temperature-ablation notebook speak of: the 25
  settings in the order of the loops, the settings that get a row, the row of a setting,
  and the frame of given rows.
\<close>

definition settings :: "(string \<times> string) list" where
  "settings = concat (map (\<lambda>pit. map (\<lambda>fait. (pit, fait)) temperatures) temperatures)"

definition molecules_of :: "('m, 'f) metrics \<Rightarrow> string \<times> string \<Rightarrow> 'm list" where
  "molecules_of M setting = get_all_molecules M (template (fst setting) (snd setting))"

definition kept :: "('m, 'f) metrics \<Rightarrow> string \<times> string \<Rightarrow> bool" where
  "kept M setting =
     (path_exists M (template (fst setting) (snd setting)) \<and>
      get_all_valid_molecules M (molecules_of M setting) \<noteq> [])"

definition setting_row :: "('m, 'f) metrics \<Rightarrow> string \<times> string \<Rightarrow> 'f cell list" where
  "setting_row M setting =
     [Str (fst setting), Str (snd setting),
      Num (compute_validity M (molecules_of M setting)
             (get_all_valid_molecules M (molecules_of M setting))),
      Num (compute_uniqueness M (get_all_valid_molecules M (molecules_of M setting)))]"

definition results_frame :: "'f cell list list \<Rightarrow> 'f frame" where
  "results_frame rows =
     \<lparr>df_index = map Pos [0..<length rows],
      df_columns =
        map Str ([''pit'', ''fait'', ''validity''] @ (if rows = [] then [] else [''uniqueness''])),
      df_data = rows\<rparr>"

subsection \<open>Instances for examples\<close>

text \<open>
  Molecules are numbers and floats are fractions. In the first instance every directory
  exists and holds three molecules, of which the even ones are valid. In the second every
  directory exists and holds one molecule, which is not valid.
\<close>

definition example_metrics :: "(nat, rat) metrics" where
  "example_metrics =
    \<lparr>path_exists = (\<lambda>p. True),
     get_all_molecules = (\<lambda>p. [1, 2, 4]),
     get_all_valid_molecules = filter even,
     compute_validity = (\<lambda>a v. of_nat (length v) / of_nat (length a)),
     compute_uniqueness = (\<lambda>v. of_nat (length (remdups v)) / of_nat (length v)),
     get_all_molecules_with_openbabel = (\<lambda>p. [1, 2, 4]),
     get_all_valid_molecules_with_openbabel = filter even,
     compute_uniqueness_with_openbabel = (\<lambda>v. of_nat (length (remdups v)) / of_nat (length v)),
     float_times = (\<lambda>x k. x * of_int k),
     round_to = (\<lambda>x k. x),
     format_2f = (\<lambda>x. [])\<rparr>"

definition no_valid_molecules :: "(nat, rat) metrics" where
  "no_valid_molecules =
     example_metrics\<lparr>get_all_molecules := (\<lambda>p. [1]), get_all_valid_molecules := (\<lambda>ms. [])\<rparr>"

section \<open>Properties of the sweep scripts\<close>

lemmas sh_eval =
  run_def learning_rates_sh_def learning_rates_run_def tetris_sh_def start_def expand_def
  lookup_var_def Let_def

lemmas loop_eval =
  sweep_scripts_def loops_over_def tetris_sh_def learning_rates_sh_def learning_rates_run_def

lemmas arith_eval =
  shell_int_def digit_of_def dec_def digit_char_def

lemma upt_4: "[0..<4] = [0, Suc 0, Suc (Suc 0), Suc (Suc (Suc 0))]"
  by (simp add: upt_conv_Cons numeral_eq_Suc)

lemma dec_nat_digit: "n < 10 \<Longrightarrow> dec_nat n = [digit_char n]"
  by (simp add: dec_nat.simps)

text \<open>A background run with a redirection adds itself to the runs when its file opens.\<close>

lemma exec_background:
  "exec w d (Symphony e os (Some r) True ob) s =
     s\<lparr>launched := launched s @
         (if can_open w (expand (branch w) (vars s) r)
          then [start w (Symphony e os (Some r) True ob) s] else [])\<rparr>"
  by (simp add: Let_def start_def)

lemma map_if_single: "map f (if c then [a] else []) = (if c then [f a] else [])"
  by simp

lemma map_filter_5:
  "map g (filter P [a, b, c, d, e]) =
     (if P a then [g a] else []) @ (if P b then [g b] else []) @ (if P c then [g c] else []) @
     (if P d then [g d] else []) @ (if P e then [g e] else [])"
  by simp

text \<open>
  The runs of the tetris sweep: one for each degree whose output file can be opened, in the
  order of the loop, with its degree, its device and the fact that it is in the background.
\<close>

lemma tetris_runs:
  "map (\<lambda>r. (flag ''--config.max_ell'' r, cuda_visible_devices r, in_background r))
     (run tetris_sh w) =
   map (\<lambda>l. (Some l, Some (dec (shell_int l - 1)), True))
     (filter (\<lambda>l. can_open w (tetris_stdout (branch w) l)) [''1'', ''2'', ''3'', ''4'', ''5''])"
  unfolding map_filter_5
  apply (simp add: run_def tetris_sh_def exec_background Let_def
      del: exec.simps(3) split del: if_split)
  apply (simp add: start_def expand_def lookup_var_def flag_def cuda_visible_devices_def
      arith_eval dec_nat_digit tetris_stdout_def map_if_single
      split del: if_split cong del: if_weak_cong)
  done

lemma tetris_status_independent:
  "run tetris_sh (w\<lparr>exit_status := st\<rparr>) = run tetris_sh w"
  apply (simp add: run_def tetris_sh_def exec_background Let_def
      del: exec.simps(3) split del: if_split)
  apply (simp add: start_def expand_def lookup_var_def
      split del: if_split cong del: if_weak_cong)
  done

lemma tetris_degrees_devices:
  "map (\<lambda>r. (flag ''--config.max_ell'' r, cuda_visible_devices r)) (run tetris_sh w) =
   map (\<lambda>l. (Some l, Some (dec (shell_int l - 1))))
     (filter (\<lambda>l. can_open w (tetris_stdout (branch w) l)) [''1'', ''2'', ''3'', ''4'', ''5''])"
proof -
  let ?t = "\<lambda>r. (flag ''--config.max_ell'' r, cuda_visible_devices r, in_background r)"
  have "map (\<lambda>r. (flag ''--config.max_ell'' r, cuda_visible_devices r)) (run tetris_sh w) =
        map (\<lambda>(l, d, b). (l, d)) (map ?t (run tetris_sh w))"
    by (simp add: comp_def)
  then show ?thesis
    unfolding tetris_runs by (simp add: comp_def)
qed

lemma tetris_degrees:
  "map (flag ''--config.max_ell'') (run tetris_sh w) =
   map Some (filter (\<lambda>l. can_open w (tetris_stdout (branch w) l)) [''1'', ''2'', ''3'', ''4'', ''5''])"
proof -
  let ?t = "\<lambda>r. (flag ''--config.max_ell'' r, cuda_visible_devices r, in_background r)"
  have "map (flag ''--config.max_ell'') (run tetris_sh w) = map fst (map ?t (run tetris_sh w))"
    by (simp add: comp_def)
  then show ?thesis
    unfolding tetris_runs by (simp add: comp_def)
qed

lemma tetris_devices:
  "map cuda_visible_devices (run tetris_sh w) =
   map (\<lambda>l. Some (dec (shell_int l - 1)))
     (filter (\<lambda>l. can_open w (tetris_stdout (branch w) l)) [''1'', ''2'', ''3'', ''4'', ''5''])"
proof -
  let ?t = "\<lambda>r. (flag ''--config.max_ell'' r, cuda_visible_devices r, in_background r)"
  have "map cuda_visible_devices (run tetris_sh w) = map (\<lambda>(l, d, b). d) (map ?t (run tetris_sh w))"
    by (simp add: comp_def)
  then show ?thesis
    unfolding tetris_runs by (simp add: comp_def)
qed

lemma tetris_background:
  "map in_background (run tetris_sh w) = replicate (length (run tetris_sh w)) True"
proof -
  let ?t = "\<lambda>r. (flag ''--config.max_ell'' r, cuda_visible_devices r, in_background r)"
  have "map in_background (run tetris_sh w) = map (\<lambda>(l, d, b). b) (map ?t (run tetris_sh w))"
    by (simp add: comp_def)
  also have "\<dots> = replicate (length (map ?t (run tetris_sh w))) True"
    unfolding tetris_runs by (simp add: comp_def map_replicate_const)
  finally show ?thesis by simp
qed

lemma tetris_length:
  "length (run tetris_sh w) =
   length (filter (\<lambda>l. can_open w (tetris_stdout (branch w) l)) [''1'', ''2'', ''3'', ''4'', ''5''])"
  using arg_cong [OF tetris_runs [of w], of length] by simp

lemma five_devices:
  "map (\<lambda>l. Some (dec (shell_int l - 1))) [''1'', ''2'', ''3'', ''4'', ''5''] =
     [Some ''0'', Some ''1'', Some ''2'', Some ''3'', Some ''4'']"
  by (simp add: arith_eval dec_nat_digit)

text \<open>The grid of the learning-rate sweep, when every run succeeds.\<close>

lemma learning_rates_grid:
  "map (\<lambda>r. (flag ''--config.learning_rate_schedule'' r, flag ''--config'' r))
     (run learning_rates_sh (w\<lparr>exit_status := (\<lambda>_. 0)\<rparr>)) =
   [(Some ''constant'', Some ''configs/qm9/mace.py''),
    (Some ''constant'', Some ''configs/qm9/e3schnet.py''),
    (Some ''sgdr'', Some ''configs/qm9/mace.py''),
    (Some ''sgdr'', Some ''configs/qm9/e3schnet.py'')]"
  by (simp add: sh_eval flag_def)

text \<open>
  Whatever the exit statuses, the learning-rate sweep starts the runs of its grid in order
  up to and including the first one that fails, and nothing after it.
\<close>

lemma learning_rates_prefix:
  "run learning_rates_sh w =
     take (Suc (length (takeWhile (\<lambda>k. exit_status w k = 0) [0..<4])))
       (run learning_rates_sh (w\<lparr>exit_status := (\<lambda>_. 0)\<rparr>))"
proof -
  consider (f0) "exit_status w 0 \<noteq> 0"
    | (f1) "exit_status w 0 = 0" "exit_status w (Suc 0) \<noteq> 0"
    | (f2) "exit_status w 0 = 0" "exit_status w (Suc 0) = 0" "exit_status w (Suc (Suc 0)) \<noteq> 0"
    | (f3) "exit_status w 0 = 0" "exit_status w (Suc 0) = 0" "exit_status w (Suc (Suc 0)) = 0"
           "exit_status w (Suc (Suc (Suc 0))) \<noteq> 0"
    | (ok) "exit_status w 0 = 0" "exit_status w (Suc 0) = 0" "exit_status w (Suc (Suc 0)) = 0"
           "exit_status w (Suc (Suc (Suc 0))) = 0"
    by blast
  then show ?thesis
  proof cases
    case f0 then show ?thesis by (simp add: sh_eval upt_4)
  next
    case f1 then show ?thesis by (simp add: sh_eval upt_4)
  next
    case f2 then show ?thesis by (simp add: sh_eval upt_4)
  next
    case f3 then show ?thesis by (simp add: sh_eval upt_4)
  next
    case ok then show ?thesis by (simp add: sh_eval upt_4)
  qed
qed

lemma learning_rates_devices_ok:
  "map cuda_visible_devices (run learning_rates_sh (w\<lparr>exit_status := (\<lambda>_. 0)\<rparr>)) =
     replicate 4 (Some ''6'')"
  by (simp add: sh_eval cuda_visible_devices_def numeral_eq_Suc)

lemma learning_rates_grid_length:
  "length (run learning_rates_sh (w\<lparr>exit_status := (\<lambda>_. 0)\<rparr>)) = 4"
  using arg_cong [OF learning_rates_devices_ok [of w], of length] by simp

lemma learning_rates_first: "run learning_rates_sh w \<noteq> []"
proof -
  have "0 < length (run learning_rates_sh w)"
    by (subst learning_rates_prefix) (simp add: learning_rates_grid_length)
  then show ?thesis by simp
qed

lemma take_replicate_length:
  "map f xs = replicate (length xs) c \<Longrightarrow> map f (take n xs) = replicate (length (take n xs)) c"
  by (simp add: take_map [symmetric] min.commute)

lemma learning_rates_devices:
  "map cuda_visible_devices (run learning_rates_sh w) =
     replicate (length (run learning_rates_sh w)) (Some ''6'')"
proof -
  let ?G = "run learning_rates_sh (w\<lparr>exit_status := (\<lambda>_. 0)\<rparr>)"
  have "map cuda_visible_devices ?G = replicate (length ?G) (Some ''6'')"
    by (simp only: learning_rates_grid_length learning_rates_devices_ok)
  from take_replicate_length [OF this] show ?thesis
    by (subst (1 2) learning_rates_prefix) simp
qed

text \<open>
  C3, as the scripts have it. The learning-rate sweep loops over the schedule
  (\<^verbatim>\<open>constant\<close>, \<^verbatim>\<open>sgdr\<close>); the tetris sweep loops over the spherical-harmonic degree
  (1 to 5); both have a loop, over a single value, for the channel count and for the
  interaction count. The runs they start carry the values of those loops: the tetris sweep
  starts a run for each degree whose output file can be opened, all five when every file
  can be; the learning-rate sweep, when no run fails, two runs for each schedule. (No loop
  of either script feeds an inverse temperature: see the counterexample below.)
\<close>

theorem sweeps_of_the_scripts:
  "loops_over learning_rates_sh Learning_rate_schedule = [[''constant'', ''sgdr'']]
   \<and> loops_over tetris_sh SH_degree = [[''1'', ''2'', ''3'', ''4'', ''5'']]
   \<and> loops_over learning_rates_sh SH_degree = [[''2'']]
   \<and> loops_over tetris_sh Channel_count = [[''64'']]
   \<and> loops_over learning_rates_sh Channel_count = [[''32'']]
   \<and> loops_over tetris_sh Interaction_count = [[''2'']]
   \<and> loops_over learning_rates_sh Interaction_count = [[''4'']]
   \<and> map (flag ''--config.max_ell'') (run tetris_sh w) =
       map Some (filter (\<lambda>l. can_open w (tetris_stdout (branch w) l))
         [''1'', ''2'', ''3'', ''4'', ''5''])
   \<and> map (flag ''--config.max_ell'') (run tetris_sh (w\<lparr>can_open := (\<lambda>f. True)\<rparr>)) =
       [Some ''1'', Some ''2'', Some ''3'', Some ''4'', Some ''5'']
   \<and> map (flag ''--config.learning_rate_schedule'')
         (run learning_rates_sh (w\<lparr>exit_status := (\<lambda>_. 0)\<rparr>)) =
       [Some ''constant'', Some ''constant'', Some ''sgdr'', Some ''sgdr'']"
proof -
  have t: "map (flag ''--config.max_ell'') (run tetris_sh (w\<lparr>can_open := (\<lambda>f. True)\<rparr>)) =
       [Some ''1'', Some ''2'', Some ''3'', Some ''4'', Some ''5'']"
    unfolding tetris_degrees by simp
  have "map (flag ''--config.learning_rate_schedule'')
         (run learning_rates_sh (w\<lparr>exit_status := (\<lambda>_. 0)\<rparr>)) =
        map fst (map (\<lambda>r. (flag ''--config.learning_rate_schedule'' r, flag ''--config'' r))
          (run learning_rates_sh (w\<lparr>exit_status := (\<lambda>_. 0)\<rparr>)))"
    by (simp add: comp_def)
  then have l: "map (flag ''--config.learning_rate_schedule'')
         (run learning_rates_sh (w\<lparr>exit_status := (\<lambda>_. 0)\<rparr>)) =
       [Some ''constant'', Some ''constant'', Some ''sgdr'', Some ''sgdr'']"
    by (simp only: learning_rates_grid) simp
  have s: "loops_over learning_rates_sh Learning_rate_schedule = [[''constant'', ''sgdr'']]"
    "loops_over tetris_sh SH_degree = [[''1'', ''2'', ''3'', ''4'', ''5'']]"
    "loops_over learning_rates_sh SH_degree = [[''2'']]"
    "loops_over tetris_sh Channel_count = [[''64'']]"
    "loops_over learning_rates_sh Channel_count = [[''32'']]"
    "loops_over tetris_sh Interaction_count = [[''2'']]"
    "loops_over learning_rates_sh Interaction_count = [[''4'']]"
    by (simp_all add: loop_eval)
  from s tetris_degrees [of w] t l show ?thesis by (simp only: simp_thms)
qed

text \<open>
  C3 as stated fails for the inverse temperatures: neither script has a loop whose
  variable reaches a flag named after a temperature.
\<close>

theorem no_temperature_sweep:
  "map (\<lambda>s. loops_over s Inverse_temperature) sweep_scripts = [[], []]"
  by (simp add: loop_eval sublist_code)

text \<open>
  C4, as the scripts have it. In the learning-rate sweep every run is followed by
  \<^verbatim>\<open>|| break 10\<close>: the runs started are the grid's four runs, in order, up to and including
  the first one that exits with a nonzero status, and no grid point after it is launched.
  The tetris sweep starts its runs in the background: the runs it launches, one for each
  of the five degrees whose output file can be opened, are the same whatever the exit
  statuses.
\<close>

theorem failure_ends_learning_rate_sweep:
  "run learning_rates_sh w =
     take (Suc (length (takeWhile (\<lambda>k. exit_status w k = 0) [0..<4])))
       (run learning_rates_sh (w\<lparr>exit_status := (\<lambda>_. 0)\<rparr>))
   \<and> length (run learning_rates_sh (w\<lparr>exit_status := (\<lambda>_. 0)\<rparr>)) = 4
   \<and> run tetris_sh (w\<lparr>exit_status := st\<rparr>) = run tetris_sh w
   \<and> map in_background (run tetris_sh w) = replicate (length (run tetris_sh w)) True
   \<and> length (run tetris_sh w) =
       length (filter (\<lambda>l. can_open w (tetris_stdout (branch w) l))
         [''1'', ''2'', ''3'', ''4'', ''5''])
   \<and> length (run tetris_sh (w\<lparr>can_open := (\<lambda>f. True)\<rparr>)) = 5"
proof -
  have five: "length (run tetris_sh (w\<lparr>can_open := (\<lambda>f. True)\<rparr>)) = 5"
    unfolding tetris_length by simp
  from learning_rates_prefix [of w] learning_rates_grid_length [of w]
    tetris_status_independent [where w = w and st = st] tetris_background [of w] tetris_length [of w] five
  show ?thesis by (simp only: simp_thms)
qed

text \<open>
  C4 as stated fails: when the first run of the learning-rate sweep exits with status 1,
  one run is started instead of four.
\<close>

theorem failed_run_changes_launches:
  "length (run learning_rates_sh
     \<lparr>branch = ''main'', exit_status = (\<lambda>k. if k = 0 then 1 else 0), can_open = (\<lambda>f. True)\<rparr>) = 1
   \<and> length (run learning_rates_sh
     \<lparr>branch = ''main'', exit_status = (\<lambda>k. 0), can_open = (\<lambda>f. True)\<rparr>) = 4"
  by (simp add: sh_eval)

text \<open>
  C5. The tetris sweep gives the run of degree \<open>l\<close> the device \<open>l - 1\<close>: the runs it
  launches, all five when every output file can be opened, get the devices 0 to 4 of
  their degrees, and no two of them the same. Every run of the learning-rate sweep gets
  device 6; the sweep launches at least one run, and four when none fails.
\<close>

theorem cuda_device_assignment:
  "map (\<lambda>r. (flag ''--config.max_ell'' r, cuda_visible_devices r)) (run tetris_sh w) =
     map (\<lambda>l. (Some l, Some (dec (shell_int l - 1))))
       (filter (\<lambda>l. can_open w (tetris_stdout (branch w) l)) [''1'', ''2'', ''3'', ''4'', ''5''])
   \<and> map (\<lambda>r. (flag ''--config.max_ell'' r, cuda_visible_devices r))
         (run tetris_sh (w\<lparr>can_open := (\<lambda>f. True)\<rparr>)) =
       [(Some ''1'', Some ''0''), (Some ''2'', Some ''1''), (Some ''3'', Some ''2''),
        (Some ''4'', Some ''3''), (Some ''5'', Some ''4'')]
   \<and> distinct (map cuda_visible_devices (run tetris_sh w))
   \<and> map cuda_visible_devices (run learning_rates_sh w) =
       replicate (length (run learning_rates_sh w)) (Some ''6'')
   \<and> run learning_rates_sh w \<noteq> []
   \<and> map cuda_visible_devices (run learning_rates_sh (w\<lparr>exit_status := (\<lambda>_. 0)\<rparr>)) =
       replicate 4 (Some ''6'')"
proof -
  have a: "map (\<lambda>r. (flag ''--config.max_ell'' r, cuda_visible_devices r))
         (run tetris_sh (w\<lparr>can_open := (\<lambda>f. True)\<rparr>)) =
       [(Some ''1'', Some ''0''), (Some ''2'', Some ''1''), (Some ''3'', Some ''2''),
        (Some ''4'', Some ''3''), (Some ''5'', Some ''4'')]"
    unfolding tetris_degrees_devices by (simp add: arith_eval dec_nat_digit)
  have "distinct (map (\<lambda>l. Some (dec (shell_int l - 1))) [''1'', ''2'', ''3'', ''4'', ''5''])"
    unfolding five_devices by simp
  then have b: "distinct (map cuda_visible_devices (run tetris_sh w))"
    unfolding tetris_devices by (rule distinct_map_filter)
  from tetris_degrees_devices [of w] a b learning_rates_devices [of w] learning_rates_first [of w]
    learning_rates_devices_ok [of w]
  show ?thesis by (simp only: simp_thms)
qed

section \<open>Properties of \<^verbatim>\<open>optimize_coeffs\<close>\<close>

lemma py_range_nat: "py_range n = map int [0..<nat n]"
proof (rule nth_equalityI)
  show "length (py_range n) = length (map int [0..<nat n])"
    by (simp add: py_range_def)
next
  fix i assume "i < length (py_range n)"
  then show "py_range n ! i = map int [0..<nat n] ! i"
    by (simp add: py_range_def)
qed

lemma update_fresh: "k \<notin> fst ` set d \<Longrightarrow> AList.update k v d = d @ [(k, v)]"
  by (induction d) auto

lemma loss_fn_kl: "loss_fn L (average_target_distributions L ts ra rb) ra rb = kl_loss L ts ra rb"
  by (rule ext) (simp add: loss_fn_def kl_loss_def)

lemma params_after_Suc:
  "params_after L ts lmax pc ra rb (Suc k) = adam_step L (kl_loss L ts ra rb) (params_after L ts lmax pc ra rb k)"
  by (simp add: params_after_def)

lemma loop_body_step:
  "loop_body L G (optax_adam L (1 / 1000)) f key ra rb (fst p, snd p, d) step =
     (fst (adam_step L f p), snd (adam_step L f p),
      if step mod 10 = 0 then
        AList.update step
          \<lparr>e_coeffs = array L (fst (adam_step L f p)),
           e_loss_value = float L (f (fst p)),
           e_grad_norms = float L (linalg_norm L (array L (grad L f (fst p)))),
           e_mean_dist = float L (fst (rmse_of_samples L
              (coeffs_to_distribution L (fst (adam_step L f p)) ra rb) (g_random_points G)
              (fold_in L key step) 1000)),
           e_std_dist = float L (snd (rmse_of_samples L
              (coeffs_to_distribution L (fst (adam_step L f p)) ra rb) (g_random_points G)
              (fold_in L key step) 1000))\<rparr> d
      else d)"
  by (simp add: loop_body_def train_step_def value_and_grad_def adam_step_def Let_def split_beta)

lemma loop_closed_form:
  "foldl (loop_body L G (optax_adam L (1 / 1000)) (kl_loss L ts ra rb) (PRNGKey L 0) ra rb)
     (fst (initial_params L lmax pc), snd (initial_params L lmax pc), []) (map int [0..<n]) =
   (fst (params_after L ts lmax pc ra rb n), snd (params_after L ts lmax pc ra rb n),
    map (\<lambda>step. (step, recorded L (g_random_points G) ts lmax pc ra rb step))
      (filter (\<lambda>step. step mod 10 = 0) (map int [0..<n])))"
  (is "foldl ?B ?S _ = _")
proof (induction n)
  case 0
  show ?case by (simp add: params_after_def)
next
  case (Suc n)
  let ?d = "map (\<lambda>step. (step, recorded L (g_random_points G) ts lmax pc ra rb step))
      (filter (\<lambda>step. step mod 10 = 0) (map int [0..<n]))"
  let ?p = "params_after L ts lmax pc ra rb n"
  have fresh: "int n \<notin> fst ` set ?d"
    by (auto simp: image_iff)
  have "foldl ?B ?S (map int [0..<Suc n]) = ?B (foldl ?B ?S (map int [0..<n])) (int n)"
    by simp
  also have "\<dots> = ?B (fst ?p, snd ?p, ?d) (int n)"
    by (simp only: Suc.IH)
  also have "\<dots> = (fst (adam_step L (kl_loss L ts ra rb) ?p), snd (adam_step L (kl_loss L ts ra rb) ?p),
      if int n mod 10 = 0
      then ?d @ [(int n, recorded L (g_random_points G) ts lmax pc ra rb (int n))] else ?d)"
    unfolding loop_body_step update_fresh [OF fresh]
    by (simp add: recorded_def params_after_Suc evaluation_def Let_def)
  also have "\<dots> = (fst (params_after L ts lmax pc ra rb (Suc n)),
      snd (params_after L ts lmax pc ra rb (Suc n)),
      map (\<lambda>step. (step, recorded L (g_random_points G) ts lmax pc ra rb step))
        (filter (\<lambda>step. step mod 10 = 0) (map int [0..<Suc n])))"
    by (simp add: params_after_Suc)
  finally show ?case .
qed

lemma optimize_coeffs_closed_form:
  "optimize_coeffs L G ts lmax pc ra rb n =
     map (\<lambda>step. (step, recorded L (g_random_points G) ts lmax pc ra rb step))
       (filter (\<lambda>step. step mod 10 = 0) (py_range n))"
  using loop_closed_form [of L G ts ra rb lmax pc "nat n"]
  by (simp add: optimize_coeffs_def py_range_nat loss_fn_kl initial_params_def Let_def split_beta)


lemma first_multiple:
  assumes "1 \<le> n"
  shows "filter (\<lambda>s. s mod 10 = 0) (py_range n) = 0 # filter (\<lambda>s. s mod 10 = 0) [1..n - 1]"
  using assms by (simp add: py_range_def upto_rec1 [of 0])

lemma last_multiple:
  assumes "1 \<le> n"
  shows "last (filter (\<lambda>s. s mod 10 = 0) (py_range n)) = 10 * ((n - 1) div 10)"
proof -
  let ?m = "10 * ((n - 1) div 10)"
  have m: "0 \<le> ?m" "?m \<le> n - 1" using assms by presburger+
  have none: "filter (\<lambda>s. s mod 10 = 0) [?m + 1..n - 1] = []"
    unfolding filter_empty_conv
  proof
    fix s assume "s \<in> set [?m + 1..n - 1]"
    then have "?m < s" "s \<le> n - 1" by auto
    then show "\<not> s mod 10 = 0" by presburger
  qed
  have "py_range n = [0..?m - 1] @ ?m # [?m + 1..n - 1]"
    unfolding py_range_def using m by (rule upto_split3)
  then show ?thesis
    by (simp add: none)
qed

text \<open>
  C9. The keys of the dictionary that \<^verbatim>\<open>optimize_coeffs\<close> returns are the multiples of 10
  from 0 up to, and not including, \<^verbatim>\<open>num_training_steps\<close>, in increasing order. With at
  least one training step the first key is 0, so that the first lines of the grid-sweep
  cell raise nothing and \<^verbatim>\<open>assert first_step == 0\<close> holds.
\<close>

theorem recorded_steps:
  "map fst (optimize_coeffs L G ts lmax pc ra rb n) = filter (\<lambda>step. step mod 10 = 0) (py_range n)
   \<and> set (map fst (optimize_coeffs L G ts lmax pc ra rb n)) = {step. 0 \<le> step \<and> step < n \<and> step mod 10 = 0}
   \<and> sorted_wrt (<) (map fst (optimize_coeffs L G ts lmax pc ra rb n))
   \<and> (1 \<le> n \<longrightarrow>
        first_key (optimize_coeffs L G ts lmax pc ra rb n) = Inr 0
        \<and> first_and_last_step (optimize_coeffs L G ts lmax pc ra rb n) = Inr (0, 10 * ((n - 1) div 10)))"
proof -
  let ?d = "optimize_coeffs L G ts lmax pc ra rb n"
  let ?ks = "filter (\<lambda>step. step mod 10 = 0) (py_range n)"
  have keys: "map fst ?d = ?ks"
    by (simp add: optimize_coeffs_closed_form comp_def)
  have a: "set (map fst ?d) = {step. 0 \<le> step \<and> step < n \<and> step mod 10 = 0}"
    unfolding keys by (auto simp: py_range_def)
  have b: "sorted_wrt (<) (map fst ?d)"
    unfolding keys py_range_def by (rule sorted_wrt_filter) simp
  have c: "first_key ?d = Inr 0 \<and> first_and_last_step ?d = Inr (0, 10 * ((n - 1) div 10))"
    if n: "1 \<le> n"
  proof -
    obtain ks where ks: "map fst ?d = 0 # ks"
      using first_multiple [OF n] keys by simp
    have "last (map fst ?d) = 10 * ((n - 1) div 10)"
      using last_multiple [OF n] keys by simp
    then have l: "last_key ?d = Inr (10 * ((n - 1) div 10))"
      by (simp add: last_key_def ks del: last.simps)
    have f: "first_key ?d = Inr 0"
      by (simp add: first_key_def ks)
    show ?thesis
      by (simp add: first_and_last_step_def f l)
  qed
  from keys a b c show ?thesis by blast
qed

text \<open>With 25 training steps, on the example instance: the keys are 0, 10 and 20.\<close>

theorem recorded_steps_witness:
  "(1 :: int) \<le> 25
   \<and> map fst (optimize_coeffs example_libs (random_signal_cell example_libs) 3 5 2 9 10 25) = [0, 10, 20]
   \<and> first_and_last_step (optimize_coeffs example_libs (random_signal_cell example_libs) 3 5 2 9 10 25) = Inr (0, 20)"
proof -
  have e: "filter (\<lambda>step. step mod 10 = 0) [0..(24::int)] = [0, 10, 20]"
    by code_simp
  show ?thesis
    using recorded_steps [of example_libs "random_signal_cell example_libs" 3 5 2 9 10 25]
    by (simp add: py_range_def e)
qed





text \<open>
  C1. The loss that \<^verbatim>\<open>optimize_coeffs\<close> records at a step is the KL divergence between the
  target distribution and the distribution of the coefficients the step starts from, the
  gradient norm is that of the gradient of this loss, and the coefficients it records are
  the result of one more Adam update for that gradient: the run is the iteration of
  \<open>adam_step\<close> on \<open>kl_loss\<close>.
\<close>

theorem kl_adam_training:
  "map (\<lambda>(step, e). (step, e_loss_value e, e_grad_norms e, e_coeffs e))
     (optimize_coeffs L G ts lmax pc ra rb n) =
   map (\<lambda>step.
          (step,
           float L (kl_loss L ts ra rb (fst (params_after L ts lmax pc ra rb (nat step)))),
           float L (linalg_norm L (array L
             (grad L (kl_loss L ts ra rb) (fst (params_after L ts lmax pc ra rb (nat step)))))),
           array L (fst (adam_step L (kl_loss L ts ra rb)
             (params_after L ts lmax pc ra rb (nat step))))))
     (filter (\<lambda>step. step mod 10 = 0) (py_range n))"
  by (simp add: optimize_coeffs_closed_form recorded_def params_after_Suc Let_def comp_def)

text \<open>
  C2, as the notebook has it. The loop starts from coefficients drawn at random, applies
  one update of the optimizer in every step, and at every step that is a multiple of 10
  records what \<^verbatim>\<open>rmse_of_samples\<close> returns for 1000 samples of the updated coefficients
  and the notebook's global points. In the call of the grid-sweep cell these points are
  the ones the target signal is made of.
\<close>

theorem training_loop_steps:
  "map (\<lambda>(step, e). (step, e_mean_dist e, e_std_dist e)) (optimize_coeffs L G ts lmax pc ra rb n) =
   map (\<lambda>step.
          let c0 = e3nn_normal L (s2_irreps L lmax 1 (- 1)) (PRNGKey L 0) (pc, 1);
              c = fst ((adam_step L (kl_loss L ts ra rb) ^^ Suc (nat step))
                        (c0, tx_init (optax_adam L (1 / 1000)) c0));
              ev = rmse_of_samples L (coeffs_to_distribution L c ra rb) (g_random_points G)
                     (fold_in L (PRNGKey L 0) step) 1000
          in (step, float L (fst ev), float L (snd ev)))
     (filter (\<lambda>step. step mod 10 = 0) (py_range n))
   \<and> sweep_call L (random_signal_cell L) ra rb =
       (let points = normalized L (random_normal L (PRNGKey L 0) (5, 3))
        in map (\<lambda>step. (step,
                  recorded L points (scaled L 20 (s2_dirac L points 5 1 (- 1))) 5 2 ra rb step))
             (filter (\<lambda>step. step mod 10 = 0) (py_range 10000)))"
proof -
  have a: "map (\<lambda>(step, e). (step, e_mean_dist e, e_std_dist e))
       (optimize_coeffs L G ts lmax pc ra rb n) =
     map (\<lambda>step.
          let c0 = e3nn_normal L (s2_irreps L lmax 1 (- 1)) (PRNGKey L 0) (pc, 1);
              c = fst ((adam_step L (kl_loss L ts ra rb) ^^ Suc (nat step))
                        (c0, tx_init (optax_adam L (1 / 1000)) c0));
              ev = rmse_of_samples L (coeffs_to_distribution L c ra rb) (g_random_points G)
                     (fold_in L (PRNGKey L 0) step) 1000
          in (step, float L (fst ev), float L (snd ev)))
       (filter (\<lambda>step. step mod 10 = 0) (py_range n))"
    by (simp add: optimize_coeffs_closed_form recorded_def evaluation_def params_after_def
        initial_params_def Let_def comp_def)
  have b: "sweep_call L (random_signal_cell L) ra rb =
       (let points = normalized L (random_normal L (PRNGKey L 0) (5, 3))
        in map (\<lambda>step. (step,
                  recorded L points (scaled L 20 (s2_dirac L points 5 1 (- 1))) 5 2 ra rb step))
             (filter (\<lambda>step. step mod 10 = 0) (py_range 10000)))"
    by (simp add: sweep_call_def optimize_coeffs_closed_form random_signal_cell_def Let_def)
  from a b show ?thesis by (simp only: simp_thms)
qed

text \<open>
  C2 as stated fails: the points of the evaluation are not held out. On the example
  instance, where the points drawn are 15, the first step of the cell's call has the loss
  167281; where the points drawn are 1, it has the loss 16641. The points enter the target
  of the training.
\<close>

theorem evaluation_points_define_target:
  "(let L = example_libs; G = random_signal_cell L
    in (g_random_points G,
        map (\<lambda>(step, e). (e_loss_value e, e_mean_dist e))
          (optimize_coeffs L G (g_random_signal G) 5 2 9 10 1))) = (15, [(167281, 107)])
   \<and> (let L = example_libs\<lparr>random_normal := (\<lambda>k s. 1)\<rparr>; G = random_signal_cell L
      in (g_random_points G,
          map (\<lambda>(step, e). (e_loss_value e, e_mean_dist e))
            (optimize_coeffs L G (g_random_signal G) 5 2 9 10 1))) = (1, [(16641, 93)])"
  by code_simp

section \<open>Properties of the metrics notebooks\<close>

lemma add_path_fold:
  "distinct ks \<Longrightarrow> set ks \<inter> fst ` set acc = {} \<Longrightarrow>
     foldl (add_path M) acc ks =
       acc @ map (\<lambda>k. (k, template (fst k) (snd k)))
               (filter (\<lambda>k. path_exists M (template (fst k) (snd k))) ks)"
proof (induction ks arbitrary: acc)
  case Nil
  show ?case by simp
next
  case (Cons k ks)
  have k: "k \<notin> fst ` set acc" "k \<notin> set ks" "distinct ks" "set ks \<inter> fst ` set acc = {}"
    using Cons.prems by auto
  show ?case
  proof (cases "path_exists M (template (fst k) (snd k))")
    case False
    then have "add_path M acc k = acc"
      by (simp add: add_path_def split_beta)
    with False Cons.IH [OF k(3) k(4)] show ?thesis by simp
  next
    case True
    then have a: "add_path M acc k = acc @ [(k, template (fst k) (snd k))]"
      using update_fresh [OF k(1)] by (simp add: add_path_def split_beta)
    have "set ks \<inter> fst ` set (acc @ [(k, template (fst k) (snd k))]) = {}"
      using k by auto
    from Cons.IH [OF k(3) this] True a show ?thesis by simp
  qed
qed

lemma distinct_settings: "distinct settings"
  by (simp add: settings_def temperatures_def)

lemma generated_paths_closed_form:
  "generated_paths M =
     map (\<lambda>k. (k, template (fst k) (snd k)))
       (filter (\<lambda>k. path_exists M (template (fst k) (snd k))) settings)"
proof -
  have "generated_paths M = foldl (add_path M) [] settings"
    by (simp add: generated_paths_def settings_def temperatures_def)
  then show ?thesis
    using add_path_fold [OF distinct_settings, of "[]" M] by simp
qed

lemma concat_results_row:
  "concat_record (results_frame rows)
     [(''pit'', Str p), (''fait'', Str f), (''validity'', Num v), (''uniqueness'', Num u)] =
   results_frame (rows @ [[Str p, Str f, Num v, Num u]])"
  by (cases "rows = []") (simp_all add: concat_record_def results_frame_def)

lemma results_loop_closed_form:
  "\<forall>k \<in> set ks. map_of generated k = Some (molecules_of M k) \<Longrightarrow>
   results_loop M generated (results_frame rows)
     (map (\<lambda>k. (k, get_all_valid_molecules M (molecules_of M k))) ks) =
   Inr (results_frame
     (rows @ map (setting_row M)
        (filter (\<lambda>k. get_all_valid_molecules M (molecules_of M k) \<noteq> []) ks)))"
proof (induction ks arbitrary: rows)
  case Nil
  show ?case by simp
next
  case (Cons k ks)
  then have g: "getitem generated k = Inr (molecules_of M k)"
    and rest: "\<forall>k \<in> set ks. map_of generated k = Some (molecules_of M k)"
    by (simp_all add: getitem_def)
  show ?case
  proof (cases "get_all_valid_molecules M (molecules_of M k) = []")
    case True
    with Cons.IH [OF rest] show ?thesis by simp
  next
    case False
    with Cons.IH [OF rest] g show ?thesis
      by (cases k) (simp add: and_then_def concat_results_row setting_row_def)
  qed
qed

lemma empty_results: "empty_frame [''pit'', ''fait'', ''validity''] = results_frame []"
  by (simp add: empty_frame_def results_frame_def)

lemma kept_eq:
  "kept M = (\<lambda>k. path_exists M (template (fst k) (snd k)) \<and>
      get_all_valid_molecules M (molecules_of M k) \<noteq> [])"
  by (rule ext) (simp add: kept_def)

lemma all_results_df_closed_form:
  "all_results_df M = Inr (results_frame (map (setting_row M) (filter (kept M) settings)))"
proof -
  let ?ks = "filter (\<lambda>k. path_exists M (template (fst k) (snd k))) settings"
  have agm: "all_generated_molecules M = map (\<lambda>k. (k, molecules_of M k)) ?ks"
    by (simp add: all_generated_molecules_def generated_paths_closed_form molecules_of_def comp_def)
  have vm: "valid_molecules M = map (\<lambda>k. (k, get_all_valid_molecules M (molecules_of M k))) ?ks"
    by (simp add: valid_molecules_def agm comp_def)
  have look: "\<forall>k \<in> set ?ks. map_of (all_generated_molecules M) k = Some (molecules_of M k)"
    unfolding agm by (simp add: map_of_map_restrict restrict_map_def comp_def)
  have "all_results_df M =
      results_loop M (all_generated_molecules M) (results_frame [])
        (map (\<lambda>k. (k, get_all_valid_molecules M (molecules_of M k))) ?ks)"
    by (simp only: all_results_df_def empty_results vm)
  also have "\<dots> = Inr (results_frame (map (setting_row M)
      (filter (\<lambda>k. get_all_valid_molecules M (molecules_of M k) \<noteq> []) ?ks)))"
    using results_loop_closed_form [OF look, of "[]"] by simp
  also have "\<dots> = Inr (results_frame (map (setting_row M) (filter (kept M) settings)))"
    by (simp add: kept_eq conj_commute)
  finally show ?thesis .
qed

lemma select_by_map: "map fst (filter snd (zip (map f xs) (map P xs))) = map f (filter P xs)"
  by (induction xs) auto

lemma column_of_rows:
  assumes "df_columns df = map Str [''pit'', ''fait'', ''validity'', ''uniqueness'']"
    and "df_data df = map (setting_row M) ks"
  shows "column df ''pit'' = Inr (map (\<lambda>k. Str (fst k)) ks)"
    and "column df ''fait'' = Inr (map (\<lambda>k. Str (snd k)) ks)"
    and "column df ''validity'' =
           Inr (map (\<lambda>k. Num (compute_validity M (molecules_of M k)
                  (get_all_valid_molecules M (molecules_of M k)))) ks)"
    and "column df ''uniqueness'' =
           Inr (map (\<lambda>k. Num (compute_uniqueness M
                  (get_all_valid_molecules M (molecules_of M k)))) ks)"
  using assms by (simp_all add: column_def setting_row_def comp_def)

text \<open>The points of a plot, for a frame of rows.\<close>

lemma scatter_points_rows:
  assumes "ks \<noteq> []"
  shows "scatter_points M ''fait'' (results_frame (map (setting_row M) ks)) =
     Inr (map (\<lambda>k. (Num (float_times M (compute_uniqueness M
                      (get_all_valid_molecules M (molecules_of M k))) 100),
                    Num (float_times M (compute_validity M (molecules_of M k)
                      (get_all_valid_molecules M (molecules_of M k))) 100)))
            (filter (\<lambda>k. snd k = ''1.0'') ks))"
    and "scatter_points M ''pit'' (results_frame (map (setting_row M) ks)) =
     Inr (map (\<lambda>k. (Num (float_times M (compute_uniqueness M
                      (get_all_valid_molecules M (molecules_of M k))) 100),
                    Num (float_times M (compute_validity M (molecules_of M k)
                      (get_all_valid_molecules M (molecules_of M k))) 100)))
            (filter (\<lambda>k. fst k = ''1.0'') ks))"
proof -
  let ?df = "results_frame (map (setting_row M) ks)"
  have c: "df_columns ?df = map Str [''pit'', ''fait'', ''validity'', ''uniqueness'']"
    and d: "df_data ?df = map (setting_row M) ks"
    using assms by (simp_all add: results_frame_def)
  have sel: "df_columns (select_rows ?df (map P ks)) =
        map Str [''pit'', ''fait'', ''validity'', ''uniqueness'']"
      "df_data (select_rows ?df (map P ks)) = map (setting_row M) (filter P ks)" for P
    using c d by (simp_all add: select_rows_def select_by_map)
  have m: "map (\<lambda>c. c = Str ''1.0'') (map (\<lambda>k. Str (f k)) ks) = map (\<lambda>k. f k = ''1.0'') ks"
    for f :: "string \<times> string \<Rightarrow> string"
    by simp
  show "scatter_points M ''fait'' ?df =
     Inr (map (\<lambda>k. (Num (float_times M (compute_uniqueness M
                      (get_all_valid_molecules M (molecules_of M k))) 100),
                    Num (float_times M (compute_validity M (molecules_of M k)
                      (get_all_valid_molecules M (molecules_of M k))) 100)))
            (filter (\<lambda>k. snd k = ''1.0'') ks))"
    unfolding scatter_points_def column_of_rows [OF c d] and_then_def sum.case Let_def m
      column_of_rows [OF sel]
    by (simp add: zip_map_map comp_def zip_same_conv_map)
  show "scatter_points M ''pit'' ?df =
     Inr (map (\<lambda>k. (Num (float_times M (compute_uniqueness M
                      (get_all_valid_molecules M (molecules_of M k))) 100),
                    Num (float_times M (compute_validity M (molecules_of M k)
                      (get_all_valid_molecules M (molecules_of M k))) 100)))
            (filter (\<lambda>k. fst k = ''1.0'') ks))"
    unfolding scatter_points_def column_of_rows [OF c d] and_then_def sum.case Let_def m
      column_of_rows [OF sel]
    by (simp add: zip_map_map comp_def zip_same_conv_map)
qed

lemma scatter_points_empty:
  "scatter_points M ''fait'' (results_frame []) = Inl KeyError"
  "scatter_points M ''pit'' (results_frame []) = Inl KeyError"
  by (simp_all add: scatter_points_def results_frame_def column_def and_then_def select_rows_def)

lemmas frame_eval =
  formatted_validity_df_def formatted_uniqueness_df_def validity_openbabel_df_def
  uniqueness_openbabel_df_def valid_molecules_openbabel_def all_generated_molecules_openbabel_def
  openbabel_generated_paths_def empty_frame_def concat_record_def transpose_frame_def
  columns_from_first_row_def frame_times_def drop_row_def select_rows_def astype_float_def
  round_frame_def applymap_2f_def and_then_def getitem_def Let_def

lemma validity_table:
  "formatted_validity_df M =
     Inr \<lparr>df_index = [Str ''Validity via OpenBabel''],
          df_columns = map (\<lambda>(model, path). Str model) openbabel_generated_paths,
          df_data =
            [map (\<lambda>(model, path).
                    Str (format_2f M (float_times M
                      (compute_validity M (get_all_molecules_with_openbabel M path)
                         (get_all_valid_molecules_with_openbabel M
                            (get_all_molecules_with_openbabel M path))) 100)))
               openbabel_generated_paths]\<rparr>"
  by (simp add: frame_eval)

lemma uniqueness_table:
  "formatted_uniqueness_df M =
     Inr \<lparr>df_index = [Str ''Uniqueness via OpenBabel''],
          df_columns = map (\<lambda>(model, path). Str model) openbabel_generated_paths,
          df_data =
            [map (\<lambda>(model, path).
                    Str (format_2f M (round_to M (float_times M
                      (compute_uniqueness_with_openbabel M
                         (get_all_valid_molecules_with_openbabel M
                            (get_all_molecules_with_openbabel M path))) 100) 2)))
               openbabel_generated_paths]\<rparr>"
  by (simp add: frame_eval)


text \<open>
  C8. The rows of \<^verbatim>\<open>all_results_df\<close> are, in the order of the loops, the settings whose
  directory exists and whose molecules include a valid one; every other setting is passed
  over, and building the frame raises no error.
\<close>

theorem skipped_settings:
  "map_sum id (\<lambda>df. map (take 2) (df_data df)) (all_results_df M) =
     Inr (map (\<lambda>(pit, fait). [Str pit, Str fait])
            (filter (\<lambda>(pit, fait).
                path_exists M (template pit fait) \<and>
                get_all_valid_molecules M (get_all_molecules M (template pit fait)) \<noteq> [])
              settings))"
proof -
  have k: "kept M = (\<lambda>(pit, fait).
      path_exists M (template pit fait) \<and>
      get_all_valid_molecules M (get_all_molecules M (template pit fait)) \<noteq> [])"
    by (rule ext) (simp add: kept_def molecules_of_def split_beta)
  have r: "take 2 \<circ> setting_row M = (\<lambda>(pit, fait). [Str pit, Str fait])"
    by (rule ext) (simp add: setting_row_def split_beta)
  show ?thesis
    unfolding all_results_df_closed_form k [symmetric]
    by (simp add: results_frame_def r)
qed

text \<open>
  C6, as the notebooks have it. The temperature-ablation notebook has one row, with the
  validity and the uniqueness of its molecules, for every setting whose directory exists
  and whose molecules include a valid one. The OpenBabel notebook prints one table of
  validities and one of uniquenesses, each with one row and a column for every
  configured model.
\<close>

theorem metrics_per_model:
  "all_results_df M = Inr (results_frame (map (setting_row M) (filter (kept M) settings)))
   \<and> map_sum id df_columns (formatted_validity_df M) =
       Inr (map (\<lambda>(model, path). Str model) openbabel_generated_paths)
   \<and> map_sum id df_columns (formatted_uniqueness_df M) =
       Inr (map (\<lambda>(model, path). Str model) openbabel_generated_paths)
   \<and> map_sum id (\<lambda>df. map length (df_data df)) (formatted_validity_df M) =
       Inr [length openbabel_generated_paths]
   \<and> map_sum id (\<lambda>df. map length (df_data df)) (formatted_uniqueness_df M) =
       Inr [length openbabel_generated_paths]"
  by (simp add: all_results_df_closed_form validity_table uniqueness_table)

text \<open>
  C6 as stated fails: when every directory exists and holds one molecule that is not valid,
  the molecules of all 25 settings are loaded and the frame has no row.
\<close>

theorem loaded_without_row:
  "map snd (all_generated_molecules no_valid_molecules) = replicate 25 [1]
   \<and> map fst (all_generated_molecules no_valid_molecules) = settings
   \<and> map_sum id df_data (all_results_df no_valid_molecules) = Inr []"
  by code_simp

text \<open>
  C7. An entry of the validity table is the validity that \<^verbatim>\<open>compute_validity\<close> returns,
  times 100, in the format \<^verbatim>\<open>.2f\<close>; an entry of the uniqueness table is the uniqueness that
  \<^verbatim>\<open>compute_uniqueness_with_openbabel\<close> returns, times 100, rounded to two decimals, in
  the same format. The points of the two plots are the uniqueness and the validity of the
  rows they show, times 100.
\<close>

theorem rescaled_and_formatted:
  "formatted_validity_df M =
     Inr \<lparr>df_index = [Str ''Validity via OpenBabel''],
          df_columns = map (\<lambda>(model, path). Str model) openbabel_generated_paths,
          df_data =
            [map (\<lambda>(model, path).
                    Str (format_2f M (float_times M
                      (compute_validity M (get_all_molecules_with_openbabel M path)
                         (get_all_valid_molecules_with_openbabel M
                            (get_all_molecules_with_openbabel M path))) 100)))
               openbabel_generated_paths]\<rparr>
   \<and> formatted_uniqueness_df M =
     Inr \<lparr>df_index = [Str ''Uniqueness via OpenBabel''],
          df_columns = map (\<lambda>(model, path). Str model) openbabel_generated_paths,
          df_data =
            [map (\<lambda>(model, path).
                    Str (format_2f M (round_to M (float_times M
                      (compute_uniqueness_with_openbabel M
                         (get_all_valid_molecules_with_openbabel M
                            (get_all_molecules_with_openbabel M path))) 100) 2)))
               openbabel_generated_paths]\<rparr>
   \<and> position_temperature_plot M =
       (if filter (kept M) settings = [] then Inl KeyError
        else Inr (map (\<lambda>k. (Num (float_times M (compute_uniqueness M
                               (get_all_valid_molecules M (molecules_of M k))) 100),
                             Num (float_times M (compute_validity M (molecules_of M k)
                               (get_all_valid_molecules M (molecules_of M k))) 100)))
                    (filter (\<lambda>k. snd k = ''1.0'') (filter (kept M) settings))))
   \<and> focus_temperature_plot M =
       (if filter (kept M) settings = [] then Inl KeyError
        else Inr (map (\<lambda>k. (Num (float_times M (compute_uniqueness M
                               (get_all_valid_molecules M (molecules_of M k))) 100),
                             Num (float_times M (compute_validity M (molecules_of M k)
                               (get_all_valid_molecules M (molecules_of M k))) 100)))
                    (filter (\<lambda>k. fst k = ''1.0'') (filter (kept M) settings))))"
proof -
  have p: "position_temperature_plot M =
       (if filter (kept M) settings = [] then Inl KeyError
        else Inr (map (\<lambda>k. (Num (float_times M (compute_uniqueness M
                               (get_all_valid_molecules M (molecules_of M k))) 100),
                             Num (float_times M (compute_validity M (molecules_of M k)
                               (get_all_valid_molecules M (molecules_of M k))) 100)))
                    (filter (\<lambda>k. snd k = ''1.0'') (filter (kept M) settings))))"
  proof (cases "filter (kept M) settings = []")
    case True
    then show ?thesis
      by (simp add: position_temperature_plot_def all_results_df_closed_form and_then_def
          scatter_points_empty)
  next
    case False
    from scatter_points_rows(1) [OF False, of M] False show ?thesis
      by (simp add: position_temperature_plot_def all_results_df_closed_form and_then_def)
  qed
  have f: "focus_temperature_plot M =
       (if filter (kept M) settings = [] then Inl KeyError
        else Inr (map (\<lambda>k. (Num (float_times M (compute_uniqueness M
                               (get_all_valid_molecules M (molecules_of M k))) 100),
                             Num (float_times M (compute_validity M (molecules_of M k)
                               (get_all_valid_molecules M (molecules_of M k))) 100)))
                    (filter (\<lambda>k. fst k = ''1.0'') (filter (kept M) settings))))"
  proof (cases "filter (kept M) settings = []")
    case True
    then show ?thesis
      by (simp add: focus_temperature_plot_def all_results_df_closed_form and_then_def
          scatter_points_empty)
  next
    case False
    from scatter_points_rows(2) [OF False, of M] False show ?thesis
      by (simp add: focus_temperature_plot_def all_results_df_closed_form and_then_def)
  qed
  from validity_table [of M] uniqueness_table [of M] p f show ?thesis
    by (simp only: simp_thms)
qed


end
